theory Spec2Isabelle
  imports Main "HOL-Library.Multiset" "HOL-Library.Log_Nat"
begin

section \<open>Python primitives used by scrambler.py\<close>

text \<open>
  The two engines of \<^verbatim>\<open>scrambler.py\<close> are pure computations over strings, unbounded
  integers and lists. Strings are modelled as lists of 8-bit characters (code points below
  256), Python's \<^verbatim>\<open>int\<close> as \<^typ>\<open>int\<close>. Every exception the source can raise is a
  value of \<open>error\<close>, returned as \<open>Inl\<close>.

  Python's \<^verbatim>\<open>%\<close> on integers is \<open>mod\<close> on \<^typ>\<open>int\<close> (the sign of the divisor). The
  source divides with \<^verbatim>\<open>math.floor(a / b)\<close>, where \<^verbatim>\<open>a / b\<close> is a float: this is not
  \<open>a div b\<close> in general, and it is modelled by \<open>py_floor_truediv\<close> below.
\<close>

datatype error = ValueError | IndexError | ZeroDivisionError | OverflowError

definition py_ord :: "char \<Rightarrow> int" where
  "py_ord c = of_char c"

definition is_digit :: "char \<Rightarrow> bool" where
  "is_digit c = (48 \<le> py_ord c \<and> py_ord c \<le> 57)"

definition digit_val :: "char \<Rightarrow> int" where
  "digit_val c = py_ord c - 48"

text \<open>The characters \<^verbatim>\<open>int()\<close> skips at both ends of its argument: the ASCII
  whitespace (tab to carriage return, and space) and, above 127, the code points Python
  counts as whitespace (133 and 160 below 256).\<close>

definition py_isspace :: "char \<Rightarrow> bool" where
  "py_isspace c = (py_ord c \<in> {9, 10, 11, 12, 13, 32, 133, 160})"

definition py_strip :: "string \<Rightarrow> string" where
  "py_strip s = rev (dropWhile py_isspace (rev (dropWhile py_isspace s)))"

text \<open>Digits with single underscores between them, as \<^verbatim>\<open>int()\<close> reads them: the flag
  says that the previous character was not a digit (start of the literal, or an
  underscore).\<close>

fun scan_digits :: "int \<Rightarrow> bool \<Rightarrow> string \<Rightarrow> int option" where
  "scan_digits acc us [] = (if us then None else Some acc)"
| "scan_digits acc us (c # cs) =
     (if is_digit c then scan_digits (10 * acc + digit_val c) False cs
      else if c = CHR ''_'' \<and> \<not> us then scan_digits acc True cs
      else None)"

text \<open>CPython's default limit on the number of digits of a decimal literal
  (\<^verbatim>\<open>sys.int_info.default_max_str_digits\<close>); a longer literal raises ValueError.\<close>

definition max_str_digits :: nat where
  "max_str_digits = 4300"

text \<open>\<^verbatim>\<open>int(s)\<close> for a string: surrounding whitespace, an optional sign, decimal digits.
  Anything else raises ValueError.\<close>

definition py_int :: "string \<Rightarrow> error + int" where
  "py_int s =
     (let b = py_strip s;
          neg = (b \<noteq> [] \<and> hd b = CHR ''-'');
          ds = (if b \<noteq> [] \<and> (hd b = CHR ''+'' \<or> hd b = CHR ''-'') then tl b else b)
      in if max_str_digits < length (filter is_digit ds) then Inl ValueError
         else (case scan_digits 0 True ds of
                 None \<Rightarrow> Inl ValueError
               | Some v \<Rightarrow> Inr (if neg then - v else v)))"

text \<open>\<^verbatim>\<open>key.split(sep)\<close> for a one-character separator: one more part than there are
  separators, empty parts kept.\<close>

fun py_split :: "char \<Rightarrow> string \<Rightarrow> string list" where
  "py_split sep [] = [[]]"
| "py_split sep (c # cs) =
     (if c = sep then [] # py_split sep cs
      else (case py_split sep cs of
              [] \<Rightarrow> [[c]]
            | p # ps \<Rightarrow> (c # p) # ps))"

text \<open>\<^verbatim>\<open>s.find(t)\<close> for a one-character \<open>t\<close>: the first index, or \<open>-1\<close>.\<close>

fun py_find :: "string \<Rightarrow> char \<Rightarrow> int" where
  "py_find [] t = - 1"
| "py_find (c # cs) t =
     (if c = t then 0 else (let k = py_find cs t in if k < 0 then - 1 else k + 1))"

text \<open>\<^verbatim>\<open>xs[i]\<close>: a negative index counts from the end, an index out of range raises
  IndexError.\<close>

definition py_nth :: "'a list \<Rightarrow> int \<Rightarrow> error + 'a" where
  "py_nth xs i =
     (let n = int (length xs); k = (if i < 0 then n + i else i)
      in if 0 \<le> k \<and> k < n then Inr (xs ! nat k) else Inl IndexError)"

section \<open>True division and \<^verbatim>\<open>math.floor\<close>\<close>

text \<open>
  For two integers, \<^verbatim>\<open>a / b\<close> is the IEEE 754 double nearest to the exact quotient, a
  tie going to the double whose last bit is even; it raises ZeroDivisionError for
  \<open>b = 0\<close> and OverflowError when the rounded quotient is \<open>2^1024\<close> or more in magnitude.
  \<^verbatim>\<open>math.floor\<close> then returns the floor of that double as an exact integer.

  \<open>round_half_even N D\<close> is the integer nearest to \<open>N / D\<close> for \<open>D > 0\<close>, ties to even.
  \<open>quotient_exponent n d\<close> is, for positive \<open>n\<close> and \<open>d\<close>, the \<open>E\<close> with
  \<open>2^E \<le> n / d < 2^(E + 1)\<close>, found from the two bit lengths. A double with that exponent
  is a multiple \<open>m * 2^e\<close> of \<open>2^e\<close> with \<open>e = E - 52\<close> (53 significant bits), and of
  \<open>2^(- 1074)\<close>, the smallest subnormal, when \<open>E - 52\<close> is below \<open>- 1074\<close>; the nearest
  one has \<open>m = round_half_even\<close> of \<open>n / (d * 2^e)\<close>.
\<close>

definition round_half_even :: "int \<Rightarrow> int \<Rightarrow> int" where
  "round_half_even N D =
     (let q = N div D; r = N mod D
      in if D < 2 * r \<or> (2 * r = D \<and> odd q) then q + 1 else q)"

definition quotient_exponent :: "int \<Rightarrow> int \<Rightarrow> int" where
  "quotient_exponent n d =
     (let k = bitlen n - bitlen d
      in if (if 0 \<le> k then d * 2 ^ nat k \<le> n else d \<le> n * 2 ^ nat (- k)) then k else k - 1)"

text \<open>\<^verbatim>\<open>math.floor(a / b)\<close> for integers \<open>a\<close> and \<open>b\<close>.\<close>

definition py_floor_truediv :: "int \<Rightarrow> int \<Rightarrow> error + int" where
  "py_floor_truediv a b =
     (if b = 0 then Inl ZeroDivisionError
      else if a = 0 then Inr 0
      else (let n = \<bar>a\<bar>; d = \<bar>b\<bar>; sg = sgn a * sgn b;
                e = max (quotient_exponent n d - 52) (- 1074);
                m = (if 0 \<le> e then round_half_even n (d * 2 ^ nat e)
                     else round_half_even (n * 2 ^ nat (- e)) d)
            in if 0 \<le> e \<and> 2 ^ 1024 \<le> m * 2 ^ nat e then Inl OverflowError
               else if 0 \<le> e then Inr (sg * m * 2 ^ nat e)
               else Inr ((sg * m) div 2 ^ nat (- e))))"

section \<open>Data model\<close>

text \<open>A tile of a Type 1 key (the dict with keys \<^verbatim>\<open>'x'\<close>, \<^verbatim>\<open>'y'\<close>, \<^verbatim>\<open>'w'\<close>,
  \<^verbatim>\<open>'h'\<close>), a parsed Type 1 key (\<^verbatim>\<open>'ndx'\<close>, \<^verbatim>\<open>'ndy'\<close>, \<^verbatim>\<open>'piece'\<close>), and a copy
  rectangle.\<close>

record tile =
  piece_x :: int
  piece_y :: int
  piece_w :: int
  piece_h :: int

record key_model =
  ndx :: int
  ndy :: int
  piece :: "tile list"

record rect =
  xsrc :: int
  ysrc :: int
  width :: int
  height :: int
  xdest :: int
  ydest :: int

record type1 =
  Tt :: key_model
  Pt :: key_model

section \<open>Type 1: parsing\<close>

text \<open>\<^verbatim>\<open>decode_char\<close>, the function nested in \<^verbatim>\<open>Type1._parse_key\<close>. It has no failure
  branch: a character in neither alphabet leaves \<open>n = -1\<close> and \<open>i = 1\<close>.\<close>

definition decode_char :: "char \<Rightarrow> int \<times> int" where
  "decode_char t =
     (let n = py_find ''ABCDEFGHIJKLMNOPQRSTUVWXYZ'' t
      in if n < 0
         then (let n' = py_find ''abcdefghijklmnopqrstuvwxyz'' t in (1, 1 + 2 * n'))
         else (0, 0 + 2 * n))"

text \<open>The body of the loop over \<open>d\<close> in \<^verbatim>\<open>_parse_key\<close>. The two reads of \<open>data_str\<close>
  are in range: the loop runs only after the length check, for \<open>d < ndx * ndy\<close>.\<close>

definition piece_at :: "int \<Rightarrow> int \<Rightarrow> string \<Rightarrow> nat \<Rightarrow> tile" where
  "piece_at nx ny data_str d =
     (let s = snd (decode_char (data_str ! (2 * d)));
          h = snd (decode_char (data_str ! (2 * d + 1)));
          a = (nx - 1) * (ny - 1) - 1;
          f = nx - 1 + a;
          c = ny - 1 + f;
          l = 1 + c;
          u = (if int d \<le> a then 2 else if int d \<le> f then 2
               else if int d \<le> c then 1 else if int d \<le> l then 1 else 0);
          o' = (if int d \<le> a then 2 else if int d \<le> f then 1
               else if int d \<le> c then 2 else if int d \<le> l then 1 else 0)
      in \<lparr>piece_x = s, piece_y = h, piece_w = u, piece_h = o'\<rparr>)"

text \<open>\<^verbatim>\<open>Type1._parse_key\<close>: \<open>Inr None\<close> is the source's \<^verbatim>\<open>return None\<close>, \<open>Inl\<close> the
  ValueError of \<^verbatim>\<open>int()\<close>.\<close>

definition Type1_parse_key :: "string \<Rightarrow> error + key_model option" where
  "Type1_parse_key key =
     (case py_split CHR ''-'' key of
        [p0, p1, data_str] \<Rightarrow>
          (case py_int p0 of
             Inl err \<Rightarrow> Inl err
           | Inr nx \<Rightarrow>
               (case py_int p1 of
                  Inl err \<Rightarrow> Inl err
                | Inr ny \<Rightarrow>
                    if int (length data_str) \<noteq> nx * ny * 2 then Inr None
                    else Inr (Some \<lparr>ndx = nx, ndy = ny,
                                piece = map (piece_at nx ny data_str) [0..<nat (nx * ny)]\<rparr>)))
      | _ \<Rightarrow> Inr None)"

text \<open>\<^verbatim>\<open>Type1.__init__(key_h, key_s)\<close>: the scramble map is parsed first, from
  \<open>key_s\<close>. A parsed model is a dict with three keys, so \<^verbatim>\<open>not self.Tt\<close> holds
  exactly when the parse returned None.\<close>

definition Type1_init :: "string \<Rightarrow> string \<Rightarrow> error + type1" where
  "Type1_init key_h key_s =
     (case Type1_parse_key key_s of
        Inl err \<Rightarrow> Inl err
      | Inr tt \<Rightarrow>
          (case Type1_parse_key key_h of
             Inl err \<Rightarrow> Inl err
           | Inr pt \<Rightarrow>
               (case (tt, pt) of
                  (Some t, Some p) \<Rightarrow>
                    if ndx t \<noteq> ndx p \<or> ndy t \<noteq> ndy p then Inl ValueError
                    else Inr \<lparr>Tt = t, Pt = p\<rparr>
                | _ \<Rightarrow> Inl ValueError)))"

section \<open>Type 1: coordinate calculation\<close>

text \<open>The alignment bases of one axis. \<open>base_size\<close> is
  \<^verbatim>\<open>math.floor((n - 1) / 7) - math.floor((n - 1) / 7) % 8\<close> for \<open>n = len - len % 8\<close>, the
  \<open>r\<close> (or \<open>h\<close>) of the source; \<open>rem_size\<close> is \<open>e = n - 7 * r\<close> (or \<open>u\<close>).\<close>

definition base_size :: "int \<Rightarrow> error + int" where
  "base_size len =
     (let n = len - len mod 8
      in case py_floor_truediv (n - 1) 7 of
           Inl err \<Rightarrow> Inl err
         | Inr q \<Rightarrow> Inr (q - q mod 8))"

definition rem_size :: "int \<Rightarrow> int \<Rightarrow> int" where
  "rem_size len r = (let n = len - len mod 8 in n - 7 * r)"

text \<open>One coordinate of a rectangle: \<^verbatim>\<open>math.floor(c / 2) * r + (c % 2) * e\<close>.\<close>

definition tile_coord :: "int \<Rightarrow> int \<Rightarrow> int \<Rightarrow> error + int" where
  "tile_coord r e c =
     (case py_floor_truediv c 2 of
        Inl err \<Rightarrow> Inl err
      | Inr q \<Rightarrow> Inr (q * r + (c mod 2) * e))"

text \<open>The rectangle of one loop iteration, from the scramble tile \<open>f\<close> and the
  unscramble tile \<open>c\<close>, its six values in the order the source computes them.\<close>

definition tile_rect :: "int \<Rightarrow> int \<Rightarrow> int \<Rightarrow> int \<Rightarrow> tile \<Rightarrow> tile \<Rightarrow> error + rect" where
  "tile_rect r e h u f c =
     (case tile_coord r e (piece_x f) of Inl err \<Rightarrow> Inl err | Inr x_src \<Rightarrow>
     (case tile_coord h u (piece_y f) of Inl err \<Rightarrow> Inl err | Inr y_src \<Rightarrow>
     (case tile_coord r e (piece_w f) of Inl err \<Rightarrow> Inl err | Inr w \<Rightarrow>
     (case tile_coord h u (piece_h f) of Inl err \<Rightarrow> Inl err | Inr ht \<Rightarrow>
     (case tile_coord r e (piece_x c) of Inl err \<Rightarrow> Inl err | Inr x_dest \<Rightarrow>
     (case tile_coord h u (piece_y c) of Inl err \<Rightarrow> Inl err | Inr y_dest \<Rightarrow>
        Inr \<lparr>xsrc = x_src, ysrc = y_src, width = w, height = ht,
             xdest = x_dest, ydest = y_dest\<rparr>))))))"

text \<open>The loop over the scramble tiles, which stops at the first exception;
  \<^verbatim>\<open>self.Pt['piece'][a]\<close> raises IndexError when the unscramble map has fewer tiles.\<close>

fun tile_rects :: "int \<Rightarrow> int \<Rightarrow> int \<Rightarrow> int \<Rightarrow> tile list \<Rightarrow> tile list \<Rightarrow> error + rect list" where
  "tile_rects r e h u [] cs = Inr []"
| "tile_rects r e h u (f # fs) [] = Inl IndexError"
| "tile_rects r e h u (f # fs) (c # cs) =
     (case tile_rect r e h u f c of
        Inl err \<Rightarrow> Inl err
      | Inr q \<Rightarrow>
          (case tile_rects r e h u fs cs of
             Inl err \<Rightarrow> Inl err
           | Inr rs \<Rightarrow> Inr (q # rs)))"

text \<open>\<^verbatim>\<open>Type1.calculate_coords\<close>: the bases of the width, then of the height, the loop,
  and the two remainder rectangles.\<close>

definition Type1_calculate_coords :: "type1 \<Rightarrow> int \<Rightarrow> int \<Rightarrow> error + rect list" where
  "Type1_calculate_coords self image_width image_height =
     (case base_size image_width of
        Inl err \<Rightarrow> Inl err
      | Inr r \<Rightarrow>
     (case base_size image_height of
        Inl err \<Rightarrow> Inl err
      | Inr h \<Rightarrow>
         (let e = rem_size image_width r;
              u = rem_size image_height h
          in case tile_rects r e h u (piece (Tt self)) (piece (Pt self)) of
               Inl err \<Rightarrow> Inl err
             | Inr coords \<Rightarrow>
                 (let l = r * (ndx (Tt self) - 1) + e;
                      v = h * (ndy (Tt self) - 1) + u
                  in Inr (coords
                       @ (if l < image_width
                          then [\<lparr>xsrc = l, ysrc = 0, width = image_width - l, height = v,
                                  xdest = l, ydest = 0\<rparr>]
                          else [])
                       @ (if v < image_height
                          then [\<lparr>xsrc = 0, ysrc = v, width = image_width,
                                  height = image_height - v, xdest = 0, ydest = v\<rparr>]
                          else []))))))"

section \<open>Type 2: the key codec\<close>

text \<open>The state of a Type 2 engine, with the fields \<^verbatim>\<open>__init__\<close> sets. \<open>kt\<close> is
  \<open>None\<close> until a permutation has been built.\<close>

record type2 =
  kt :: "int list option"
  T :: int
  j :: int
  Dt :: int
  Rt :: "int list"
  Ft :: "int list"
  Lt :: "int list"
  Nt :: "int list"

text \<open>The parsed data section of one key: the dict with keys \<^verbatim>\<open>'t'\<close>, \<^verbatim>\<open>'n'\<close>,
  \<^verbatim>\<open>'p'\<close>.\<close>

record sub_key =
  t_list :: "int list"
  n_list :: "int list"
  p_list :: "int list"

text \<open>The class attribute \<^verbatim>\<open>_Jt\<close>: 128 entries, written here in rows of 16.\<close>

definition Jt :: "int list" where
  "Jt =
     [- 1, - 1, - 1, - 1, - 1, - 1, - 1, - 1, - 1, - 1, - 1, - 1, - 1, - 1, - 1, - 1]
     @ [- 1, - 1, - 1, - 1, - 1, - 1, - 1, - 1, - 1, - 1, - 1, - 1, - 1, - 1, - 1, - 1]
     @ [- 1, - 1, - 1, - 1, - 1, - 1, - 1, - 1, - 1, - 1, - 1, - 1, - 1, 62, - 1, - 1]
     @ [52, 53, 54, 55, 56, 57, 58, 59, 60, 61, - 1, - 1, - 1, - 1, - 1, - 1]
     @ [- 1, 0, 1, 2, 3, 4, 5, 6, 7, 8, 9, 10, 11, 12, 13, 14]
     @ [15, 16, 17, 18, 19, 20, 21, 22, 23, 24, 25, - 1, - 1, - 1, - 1, 63]
     @ [- 1, 26, 27, 28, 29, 30, 31, 32, 33, 34, 35, 36, 37, 38, 39, 40]
     @ [41, 42, 43, 44, 45, 46, 47, 48, 49, 50, 51, - 1, - 1, - 1, - 1, - 1]"

text \<open>\<^verbatim>\<open>Type2._decode_char\<close>.\<close>

definition Type2_decode_char :: "int \<Rightarrow> int" where
  "Type2_decode_char char_code =
     (if 0 \<le> char_code \<and> char_code < int (length Jt) then Jt ! nat char_code else - 1)"

text \<open>\<^verbatim>\<open>range(n)\<close>, and a loop that appends one value per index and stops at the first
  exception.\<close>

definition py_range :: "int \<Rightarrow> int list" where
  "py_range n = map int [0..<nat n]"

fun collect :: "(int \<Rightarrow> error + 'a) \<Rightarrow> int list \<Rightarrow> error + 'a list" where
  "collect g [] = Inr []"
| "collect g (i # is) =
     (case g i of
        Inl err \<Rightarrow> Inl err
      | Inr v \<Rightarrow> (case collect g is of Inl err \<Rightarrow> Inl err | Inr vs \<Rightarrow> Inr (v # vs)))"

text \<open>\<^verbatim>\<open>self._decode_char(ord(data_str[k]))\<close>.\<close>

definition decode_at :: "string \<Rightarrow> int \<Rightarrow> error + int" where
  "decode_at data_str k =
     (case py_nth data_str k of
        Inl err \<Rightarrow> Inl err
      | Inr c \<Rightarrow> Inr (Type2_decode_char (py_ord c)))"

text \<open>\<^verbatim>\<open>Type2._parse_sub_key\<close>: three loops over the data section.\<close>

definition Type2_parse_sub_key :: "type2 \<Rightarrow> string \<Rightarrow> error + sub_key" where
  "Type2_parse_sub_key self data_str =
     (case collect (\<lambda>i. decode_at data_str i) (py_range (T self)) of
        Inl err \<Rightarrow> Inl err
      | Inr ts \<Rightarrow>
     (case collect (\<lambda>i. decode_at data_str (T self + i)) (py_range (j self)) of
        Inl err \<Rightarrow> Inl err
      | Inr ns \<Rightarrow>
     (case collect (\<lambda>i. decode_at data_str (T self + j self + i))
             (py_range (T self * j self)) of
        Inl err \<Rightarrow> Inl err
      | Inr ps \<Rightarrow> Inr \<lparr>t_list = ts, n_list = ns, p_list = ps\<rparr>)))"

section \<open>Type 2: the key grammar\<close>

text \<open>The character class \<^verbatim>\<open>[-_0-9A-Za-z]\<close> of the data section.\<close>

definition data_class :: "char \<Rightarrow> bool" where
  "data_class c =
     (c = CHR ''-'' \<or> c = CHR ''_'' \<or> is_digit c
      \<or> (65 \<le> py_ord c \<and> py_ord c \<le> 90) \<or> (97 \<le> py_ord c \<and> py_ord c \<le> 122))"

text \<open>
  \<^verbatim>\<open>re.match(r'^=([0-9]+)-([0-9]+)([-+])([0-9]+)-([-_0-9A-Za-z]+)$', key)\<close>: the five
  groups of a match, or \<open>None\<close>. Each run of digits is followed by a character that is not
  a digit, so a greedy run is the only one that can match. Python's \<^verbatim>\<open>$\<close> matches at the
  end of the string and also just before a line feed that is the last character; the
  line feed is not in the class, so it is not part of group 5.
\<close>

definition match_key :: "string \<Rightarrow> (string \<times> string \<times> char \<times> string \<times> string) option" where
  "match_key key =
     (let k0 = tl key;
          g1 = takeWhile is_digit k0; k1 = dropWhile is_digit k0;
          g2 = takeWhile is_digit (tl k1); k2 = dropWhile is_digit (tl k1);
          g4 = takeWhile is_digit (tl k2); k4 = dropWhile is_digit (tl k2);
          rest = tl k4;
          g5 = (if rest \<noteq> [] \<and> last rest = CHR 0x0A then butlast rest else rest)
      in if key \<noteq> [] \<and> hd key = CHR ''='' \<and> g1 \<noteq> []
            \<and> k1 \<noteq> [] \<and> hd k1 = CHR ''-'' \<and> g2 \<noteq> []
            \<and> k2 \<noteq> [] \<and> (hd k2 = CHR ''-'' \<or> hd k2 = CHR ''+'') \<and> g4 \<noteq> []
            \<and> k4 \<noteq> [] \<and> hd k4 = CHR ''-''
            \<and> g5 \<noteq> [] \<and> list_all data_class g5
         then Some (g1, g2, hd k2, g4, g5)
         else None)"

section \<open>Type 2: parsing\<close>

text \<open>The loop that builds \<^verbatim>\<open>self.kt\<close>: \<^verbatim>\<open>s_parsed['p'][h_parsed['p'][u]]\<close>, with
  Python's list indexing in both reads.\<close>

definition final_index :: "int list \<Rightarrow> int list \<Rightarrow> int \<Rightarrow> error + int" where
  "final_index s_p h_p u =
     (case py_nth h_p u of
        Inl err \<Rightarrow> Inl err
      | Inr k \<Rightarrow> py_nth s_p k)"

text \<open>\<^verbatim>\<open>Type2._parse_keys\<close>, on the engine state: each early \<^verbatim>\<open>return\<close> gives the state
  as it is then back; an exception is \<open>Inl\<close>.\<close>

definition Type2_parse_keys :: "type2 \<Rightarrow> string \<Rightarrow> string \<Rightarrow> error + type2" where
  "Type2_parse_keys self key_s key_h =
     (case (match_key key_s, match_key key_h) of
        (Some (s1, s2, s3, s4, s5), Some (h1, h2, h3, h4, h5)) \<Rightarrow>
          if s1 \<noteq> h1 \<or> s2 \<noteq> h2 \<or> s4 \<noteq> h4 \<or> s3 \<noteq> CHR ''+'' \<or> h3 \<noteq> CHR ''-''
          then Inr self
          else
          (case py_int s1 of Inl err \<Rightarrow> Inl err | Inr vT \<Rightarrow>
          (case py_int s2 of Inl err \<Rightarrow> Inl err | Inr vj \<Rightarrow>
          (case py_int s4 of Inl err \<Rightarrow> Inl err | Inr vD \<Rightarrow>
            (let self1 = self\<lparr>T := vT, j := vj, Dt := vD\<rparr>
             in if vT > 8 \<or> vj > 8 \<or> vT * vj > 64 then Inr self1
                else if int (length s5) \<noteq> vT + vj + vT * vj
                        \<or> int (length h5) \<noteq> vT + vj + vT * vj
                then Inr self1
                else
                (case Type2_parse_sub_key self1 s5 of Inl err \<Rightarrow> Inl err | Inr s_parsed \<Rightarrow>
                (case Type2_parse_sub_key self1 h5 of Inl err \<Rightarrow> Inl err | Inr h_parsed \<Rightarrow>
                  (let self2 = self1\<lparr>Rt := n_list s_parsed, Ft := t_list s_parsed,
                                     Lt := n_list h_parsed, Nt := t_list h_parsed\<rparr>
                   in case collect (final_index (p_list s_parsed) (p_list h_parsed))
                             (py_range (vT * vj)) of
                        Inl err \<Rightarrow> Inl err
                      | Inr k \<Rightarrow> Inr (self2\<lparr>kt := Some k\<rparr>))))))))
      | _ \<Rightarrow> Inr self)"

text \<open>\<^verbatim>\<open>Type2.__init__(key_h, key_s)\<close>: the fields are initialised, then the keys are
  parsed, scramble key first.\<close>

definition Type2_init :: "string \<Rightarrow> string \<Rightarrow> error + type2" where
  "Type2_init key_h key_s =
     Type2_parse_keys
       \<lparr>kt = None, T = 0, j = 0, Dt = 0, Rt = [], Ft = [], Lt = [], Nt = []\<rparr>
       key_s key_h"

section \<open>Type 2: coordinate calculation\<close>

text \<open>One iteration of the loop over \<open>o\<close>, with the permutation \<open>k\<close> held in
  \<^verbatim>\<open>self.kt\<close>, in the order of the source: \<^verbatim>\<open>o % self.T\<close> raises ZeroDivisionError for
  \<open>T = 0\<close>, every division can raise, and every list read can raise IndexError.\<close>

definition Type2_tile :: "type2 \<Rightarrow> int list \<Rightarrow> int \<Rightarrow> int \<Rightarrow> int \<Rightarrow> int \<Rightarrow> int \<Rightarrow> error + rect" where
  "Type2_tile self k r e s h o' =
     (if T self = 0 then Inl ZeroDivisionError
      else
       (let a = o' mod T self
        in case py_floor_truediv o' (T self) of Inl err \<Rightarrow> Inl err | Inr f \<Rightarrow>
          (case py_nth (Lt self) f of Inl err \<Rightarrow> Inl err | Inr lt_f \<Rightarrow>
          (case py_nth (Nt self) a of Inl err \<Rightarrow> Inl err | Inr nt_a \<Rightarrow>
          (case py_nth k o' of Inl err \<Rightarrow> Inl err | Inr kt_o \<Rightarrow>
            (let v = kt_o mod T self
             in case py_floor_truediv kt_o (T self) of Inl err \<Rightarrow> Inl err | Inr d \<Rightarrow>
               (case py_nth (Rt self) d of Inl err \<Rightarrow> Inl err | Inr rt_d \<Rightarrow>
               (case py_nth (Ft self) v of Inl err \<Rightarrow> Inl err | Inr ft_v \<Rightarrow>
                  Inr \<lparr>xsrc = Dt self + a * (r + 2 * Dt self) + (if lt_f < a then e - r else 0),
                       ysrc = Dt self + f * (s + 2 * Dt self) + (if nt_a < f then h - s else 0),
                       width = (if lt_f = a then e else r),
                       height = (if nt_a = f then h else s),
                       xdest = v * r + (if rt_d < v then e - r else 0),
                       ydest = d * s + (if ft_v < d then h - s else 0)\<rparr>))))))))"

text \<open>The loop: a rectangle is appended only when \<open>i > 0\<close> and \<open>n > 0\<close>, but it is
  computed, list reads included, in every iteration.\<close>

fun Type2_loop :: "type2 \<Rightarrow> int list \<Rightarrow> int \<Rightarrow> int \<Rightarrow> int \<Rightarrow> int \<Rightarrow> int \<Rightarrow> int \<Rightarrow> int list \<Rightarrow> error + rect list" where
  "Type2_loop self k i n r e s h [] = Inr []"
| "Type2_loop self k i n r e s h (o' # os) =
     (case Type2_tile self k r e s h o' of
        Inl err \<Rightarrow> Inl err
      | Inr t \<Rightarrow>
          (case Type2_loop self k i n r e s h os of
             Inl err \<Rightarrow> Inl err
           | Inr u \<Rightarrow> Inr ((if i > 0 \<and> n > 0 then [t] else []) @ u)))"

text \<open>\<^verbatim>\<open>Type2.calculate_coords\<close>. \<^verbatim>\<open>not self.kt\<close> holds for \<open>None\<close> and for the empty
  list. The two divisions for \<open>r\<close> and \<open>s\<close> come before the loop and its guard: they raise
  ZeroDivisionError for a zero divisor and OverflowError for a quotient outside the
  floats.\<close>

definition Type2_calculate_coords :: "type2 \<Rightarrow> int \<Rightarrow> int \<Rightarrow> error + rect list" where
  "Type2_calculate_coords self image_width image_height =
     (if kt self = None \<or> kt self = Some []
      then Inr [\<lparr>xsrc = 0, ysrc = 0, width = image_width, height = image_height,
                 xdest = 0, ydest = 0\<rparr>]
      else
        (let i = image_width - 2 * T self * Dt self;
             n = image_height - 2 * j self * Dt self
         in case py_floor_truediv (i + T self - 1) (T self) of
              Inl err \<Rightarrow> Inl err
            | Inr r \<Rightarrow>
                (let e = i - (T self - 1) * r
                 in case py_floor_truediv (n + j self - 1) (j self) of
                      Inl err \<Rightarrow> Inl err
                    | Inr s \<Rightarrow>
                        (let h = n - (j self - 1) * s
                         in Type2_loop self (the (kt self)) i n r e s h
                              (py_range (T self * j self))))))"

section \<open>Coverage of an image by destination rectangles\<close>

text \<open>The pixel \<open>(px, py)\<close> lies in the destination block of a rectangle; the number of
  rectangles of a list whose destination block holds a pixel; and a list whose destination
  blocks partition \<open>[0, w) \<times> [0, h)\<close>: every pixel of the region is in exactly one block, and
  every pixel outside it in none.\<close>

definition in_dest :: "rect \<Rightarrow> int \<Rightarrow> int \<Rightarrow> bool" where
  "in_dest q px py =
     (xdest q \<le> px \<and> px < xdest q + width q \<and> ydest q \<le> py \<and> py < ydest q + height q)"

definition cover_count :: "rect list \<Rightarrow> int \<Rightarrow> int \<Rightarrow> nat" where
  "cover_count qs px py = length (filter (\<lambda>q. in_dest q px py) qs)"

definition partitions :: "rect list \<Rightarrow> int \<Rightarrow> int \<Rightarrow> bool" where
  "partitions qs w h =
     (\<forall>px py. cover_count qs px py = (if 0 \<le> px \<and> px < w \<and> 0 \<le> py \<and> py < h then 1 else 0))"

section \<open>Predicates and closed forms used in the properties\<close>

text \<open>An uppercase or lowercase ASCII letter: the alphabet of the Type 1 data section.\<close>

definition is_letter :: "char \<Rightarrow> bool" where
  "is_letter c = ((65 \<le> py_ord c \<and> py_ord c \<le> 90) \<or> (97 \<le> py_ord c \<and> py_ord c \<le> 122))"

text \<open>
  The Type 1 bases and rectangle with the quotients of integer division in the place of
  \<^verbatim>\<open>math.floor(a / b)\<close>: \<open>r = floor((n - 1) / 7)\<close> less its remainder modulo 8 and
  \<open>e = n - 7 r\<close> for \<open>n = len - len mod 8\<close>, and the rectangle of a tile pair over such
  bases. They are compared with \<open>base_size\<close>, \<open>rem_size\<close> and \<open>tile_rect\<close> below. A
  tile is small when its four values are below \<open>2^52\<close> in magnitude.
\<close>

definition base_exact :: "int \<Rightarrow> int" where
  "base_exact len =
     (let n = len - len mod 8 in (n - 1) div 7 - ((n - 1) div 7) mod 8)"

definition rem_exact :: "int \<Rightarrow> int" where
  "rem_exact len = (let n = len - len mod 8 in n - 7 * base_exact len)"

definition tile_rect_exact :: "int \<Rightarrow> int \<Rightarrow> int \<Rightarrow> int \<Rightarrow> tile \<Rightarrow> tile \<Rightarrow> rect" where
  "tile_rect_exact r e h u f c =
     \<lparr>xsrc = (piece_x f div 2) * r + (piece_x f mod 2) * e,
      ysrc = (piece_y f div 2) * h + (piece_y f mod 2) * u,
      width = (piece_w f div 2) * r + (piece_w f mod 2) * e,
      height = (piece_h f div 2) * h + (piece_h f mod 2) * u,
      xdest = (piece_x c div 2) * r + (piece_x c mod 2) * e,
      ydest = (piece_y c div 2) * h + (piece_y c mod 2) * u\<rparr>"

definition small_tile :: "tile \<Rightarrow> bool" where
  "small_tile t =
     (\<bar>piece_x t\<bar> < 2 ^ 52 \<and> \<bar>piece_y t\<bar> < 2 ^ 52 \<and> \<bar>piece_w t\<bar> < 2 ^ 52 \<and> \<bar>piece_h t\<bar> < 2 ^ 52)"

text \<open>The rectangle that Type 2 emits for the flat index \<open>n\<close>, in closed form over the
  base sizes \<open>r\<close>, \<open>e\<close>, \<open>s\<close>, \<open>h\<close> and the permutation \<open>k\<close>; it is compared with the
  loop of \<^verbatim>\<open>calculate_coords\<close> below.\<close>

definition perm_rect :: "type2 \<Rightarrow> int list \<Rightarrow> int \<Rightarrow> int \<Rightarrow> int \<Rightarrow> int \<Rightarrow> nat \<Rightarrow> rect" where
  "perm_rect self k r e s h n =
     \<lparr>xsrc = Dt self + (int n mod T self) * (r + 2 * Dt self)
                  + (if Lt self ! nat (int n div T self) < int n mod T self then e - r else 0),
      ysrc = Dt self + (int n div T self) * (s + 2 * Dt self)
                  + (if Nt self ! nat (int n mod T self) < int n div T self then h - s else 0),
      width = (if Lt self ! nat (int n div T self) = int n mod T self then e else r),
      height = (if Nt self ! nat (int n mod T self) = int n div T self then h else s),
      xdest = (k ! n mod T self) * r
                  + (if Rt self ! nat (k ! n div T self) < k ! n mod T self then e - r else 0),
      ydest = (k ! n div T self) * s
                  + (if Ft self ! nat (k ! n mod T self) < k ! n div T self then h - s else 0)\<rparr>"

text \<open>
  Grid layouts of a Type 1 key, for the coverage results. \<open>layout s ls\<close> places segments
  of the lengths \<open>ls\<close> one after the other from \<open>s\<close>, as (start, length) pairs, and
  \<open>in_seg\<close> says that a coordinate lies in a segment. \<open>grid_cols p nd\<close> are the logical
  columns \<open>(x, w)\<close> of a grid of \<open>nd\<close> columns whose remainder column is the \<open>p\<close>-th: full
  columns (\<open>w = 2\<close>) at the even \<open>x = 2 i\<close> before it, the remainder column (\<open>w = 1\<close>) at
  \<open>x = 2 p\<close>, full columns at the odd \<open>x = 2 i - 1\<close> after it; rows are the same.
  \<open>pixel_seg\<close> is the pixel segment that \<^verbatim>\<open>calculate_coords\<close> computes from a logical
  origin and a size factor. A key model is a grid layout when the \<open>(x, y, w, h)\<close> of its
  tiles are, in some order, the cells of such a grid.
\<close>

fun layout :: "int \<Rightarrow> int list \<Rightarrow> (int \<times> int) list" where
  "layout s [] = []"
| "layout s (l # ls) = (s, l) # layout (s + l) ls"

definition in_seg :: "int \<Rightarrow> int \<times> int \<Rightarrow> bool" where
  "in_seg px sl = (fst sl \<le> px \<and> px < fst sl + snd sl)"

definition grid_cols :: "nat \<Rightarrow> nat \<Rightarrow> (int \<times> int) list" where
  "grid_cols p nd =
     map (\<lambda>i. (2 * int i, 2)) [0..<p] @ [(2 * int p, 1)]
     @ map (\<lambda>i. (2 * int i - 1, 2)) [Suc p..<nd]"

definition grid_cells :: "nat \<Rightarrow> nat \<Rightarrow> nat \<Rightarrow> nat \<Rightarrow> (int \<times> int \<times> int \<times> int) list" where
  "grid_cells p q nx ny =
     concat (map (\<lambda>xw. map (\<lambda>yh. (fst xw, fst yh, snd xw, snd yh)) (grid_cols q ny))
               (grid_cols p nx))"

definition pixel_seg :: "int \<Rightarrow> int \<Rightarrow> int \<times> int \<Rightarrow> int \<times> int" where
  "pixel_seg r e xw =
     ((fst xw div 2) * r + (fst xw mod 2) * e, (snd xw div 2) * r + (snd xw mod 2) * e)"

definition tile_quad :: "tile \<Rightarrow> int \<times> int \<times> int \<times> int" where
  "tile_quad t = (piece_x t, piece_y t, piece_w t, piece_h t)"

definition grid_layout :: "key_model \<Rightarrow> nat \<Rightarrow> nat \<Rightarrow> bool" where
  "grid_layout m p q =
     (p < nat (ndx m) \<and> q < nat (ndy m)
      \<and> mset (map tile_quad (piece m)) = mset (grid_cells p q (nat (ndx m)) (nat (ndy m))))"

text \<open>The characters that can occur in a key matching the Type 2 grammar: \<^verbatim>\<open>=\<close>,
  \<^verbatim>\<open>+\<close> and the data class (which holds \<^verbatim>\<open>-\<close> and the digits).\<close>

definition key_alphabet :: "char \<Rightarrow> bool" where
  "key_alphabet c = (c = CHR ''='' \<or> c = CHR ''+'' \<or> data_class c)"

section \<open>True division on small operands\<close>

text \<open>
  When the divisor is positive and both operands are below \<open>2^52\<close> in magnitude,
  \<^verbatim>\<open>math.floor(a / b)\<close> is the quotient of integer division: the double nearest to the
  quotient lies on the same side of every integer as the quotient itself. Beyond the
  precision of a double it is not: \<^verbatim>\<open>math.floor((2**53 + 1) / 1)\<close> is \<open>2^53\<close>, and
  \<^verbatim>\<open>(2**1024) / 1\<close> raises OverflowError.
\<close>

lemma div_mod_shifted:
  fixes k x P :: int
  assumes "0 \<le> x" and "x < P"
  shows "(k * P + x) div P = k \<and> (k * P + x) mod P = x"
proof -
  have "k * P + x = P * k + x" by (simp add: mult.commute)
  with assms show ?thesis
    using int_div_pos_eq [of "k * P + x" P k x] int_mod_pos_eq [of "k * P + x" P k x] by simp
qed

lemma round_half_even_floor:
  fixes n d P :: int
  assumes d: "0 < d" and dP: "d \<le> P" and n: "0 \<le> n"
  shows "round_half_even (n * P) d div P = n div d
         \<and> (- round_half_even (n * P) d) div P = (- n) div d"
proof -
  define k where "k = n div d"
  define r where "r = n mod d"
  define t where "t = (r * P) div d"
  define u where "u = (r * P) mod d"
  have r: "0 \<le> r" "r < d" using d by (simp_all add: r_def)
  have u: "0 \<le> u" "u < d" using d by (simp_all add: u_def)
  have nkr: "n = k * d + r" by (simp add: k_def r_def)
  have rP: "r * P = t * d + u" by (simp add: t_def u_def)
  have P: "0 < P" using d dP by linarith
  have t0: "0 \<le> t" using r(1) P d by (simp add: t_def pos_imp_zdiv_nonneg_iff)
  have "n * P = k * d * P + r * P" unfolding nkr by (simp add: algebra_simps)
  also have "\<dots> = k * d * P + (t * d + u)" by (simp only: rP)
  finally have N: "n * P = (k * P + t) * d + u" by (simp add: algebra_simps)
  then have "n * P = d * (k * P + t) + u" by (simp add: mult.commute)
  with u have qd: "(n * P) div d = k * P + t" and qm: "(n * P) mod d = u"
    using int_div_pos_eq [of "n * P" d "k * P + t" u] int_mod_pos_eq [of "n * P" d "k * P + t" u]
    by simp_all
  define dl :: int where "dl = (if d < 2 * u \<or> (2 * u = d \<and> odd (k * P + t)) then 1 else 0)"
  have M: "round_half_even (n * P) d = k * P + (t + dl)"
    by (simp add: round_half_even_def Let_def qd qm dl_def)
  have dl: "0 \<le> dl" "dl \<le> 1" by (simp_all add: dl_def)
  have "r * P \<le> (d - 1) * P" using r(2) P by (intro mult_right_mono) simp_all
  also have "\<dots> = d * P - P" by (simp add: algebra_simps)
  also have "\<dots> \<le> d * P - d" using dP by simp
  finally have "r * P \<le> d * P - d" .
  then have up: "t * d + u \<le> d * P - d" by (simp only: rP)
  have tle: "t \<le> P - 1"
  proof (rule ccontr)
    assume "\<not> t \<le> P - 1"
    then have "P \<le> t" by simp
    then have "P * d \<le> t * d" using d by (intro mult_right_mono) simp_all
    then have "d * P \<le> t * d" by (simp add: mult.commute)
    with up u(1) d show False by linarith
  qed
  have upper: "t + dl < P"
  proof (cases "t = P - 1")
    case True
    have "(P - 1) * d = d * P - d" by (simp add: algebra_simps)
    with True have "t * d = d * P - d" by simp
    with up have "u \<le> 0" by linarith
    with u(1) have "u = 0" by simp
    with d have "dl = 0" by (simp add: dl_def)
    with True show ?thesis by simp
  next
    case False
    with tle dl(2) show ?thesis by linarith
  qed
  have lower: "0 \<le> t + dl" using t0 dl(1) by simp
  have zero: "t + dl = 0 \<longleftrightarrow> r = 0"
  proof
    assume "t + dl = 0"
    with t0 dl(1) have "t = 0" "dl = 0" by simp_all
    show "r = 0"
    proof (rule ccontr)
      assume "r \<noteq> 0"
      with r(1) have "1 \<le> r" by simp
      then have "1 * P \<le> r * P" using P by (intro mult_right_mono) simp_all
      then have "P \<le> t * d + u" by (simp only: rP mult_1)
      with \<open>t = 0\<close> dP u(2) show False by simp
    qed
  next
    assume "r = 0"
    then have "t = 0" "u = 0" by (simp_all add: t_def u_def)
    with d show "t + dl = 0" by (simp add: dl_def)
  qed
  from div_mod_shifted [OF lower upper, of k]
  have Md: "round_half_even (n * P) d div P = k" and Mm: "round_half_even (n * P) d mod P = t + dl"
    by (simp_all add: M)
  have 1: "round_half_even (n * P) d div P = n div d" using Md by (simp add: k_def)
  have "(- round_half_even (n * P) d) div P = (if t + dl = 0 then - k else - k - 1)"
    using P by (simp add: zdiv_zminus1_eq_if Md Mm)
  moreover have "(- n) div d = (if r = 0 then - k else - k - 1)"
    using d by (simp add: zdiv_zminus1_eq_if k_def r_def)
  ultimately have 2: "(- round_half_even (n * P) d) div P = (- n) div d"
    using zero by simp
  from 1 2 show ?thesis ..
qed

lemma quotient_exponent_le: "quotient_exponent n d \<le> bitlen n - bitlen d"
  by (simp add: quotient_exponent_def Let_def)

lemma py_floor_truediv_exact:
  assumes b: "0 < b" "b < 2 ^ 52" and a: "\<bar>a\<bar> < 2 ^ 52"
  shows "py_floor_truediv a b = Inr (a div b)"
proof (cases "a = 0")
  case True
  then show ?thesis using b by (simp add: py_floor_truediv_def)
next
  case False
  define n where "n = \<bar>a\<bar>"
  define L where "L = bitlen b"
  define e where "e = max (quotient_exponent n b - 52) (- 1074)"
  define p where "p = nat (- e)"
  have n: "0 < n" "n < 2 ^ 52" using False a by (simp_all add: n_def)
  have bn: "bitlen n \<le> 52" using n(2) by (simp add: bitlen_le_iff_power)
  have L1: "1 \<le> L" using b(1) by (simp add: L_def bitlen_ge_iff_power)
  have L52: "L \<le> 52" using b(2) by (simp add: L_def bitlen_le_iff_power)
  have bL: "b < 2 ^ nat L" using bitlen_bounds [OF b(1)] by (simp add: L_def)
  have "quotient_exponent n b \<le> bitlen n - L"
    unfolding L_def by (rule quotient_exponent_le)
  with bn L52 have eL: "e \<le> - L" by (simp add: e_def)
  with L1 have e0: "e < 0" by linarith
  from eL have "nat L \<le> p" by (simp add: p_def)
  then have "(2::int) ^ nat L \<le> 2 ^ p" by (intro power_increasing) simp_all
  with bL have bP: "b \<le> 2 ^ p" by linarith
  from round_half_even_floor [OF b(1) bP, of n] n(1)
  have f: "round_half_even (n * 2 ^ p) b div 2 ^ p = n div b"
    "(- round_half_even (n * 2 ^ p) b) div 2 ^ p = (- n) div b" by simp_all
  have ab: "\<bar>b\<bar> = b" "sgn b = 1" using b(1) by simp_all
  have res: "py_floor_truediv a b = Inr ((sgn a * round_half_even (n * 2 ^ p) b) div 2 ^ p)"
    unfolding py_floor_truediv_def Let_def ab n_def [symmetric] e_def [symmetric]
    using False b(1) e0 by (simp add: p_def)
  show ?thesis
  proof (cases "0 < a")
    case True
    then have "sgn a = 1" "n = a" by (simp_all add: n_def)
    with res f(1) show ?thesis by simp
  next
    case neg: False
    with False have "sgn a = - 1" "a = - n" by (simp_all add: n_def)
    with res f(2) show ?thesis by simp
  qed
qed

lemma py_floor_truediv_rounds:
  "py_floor_truediv 9007199254740993 1 = Inr 9007199254740992
   \<and> py_floor_truediv 1152921504606846975 7 = Inr 164703072086692416
   \<and> 1152921504606846975 div 7 = (164703072086692425 :: int)
   \<and> py_floor_truediv (2 ^ 1024) 1 = Inl OverflowError
   \<and> py_floor_truediv 1 0 = Inl ZeroDivisionError"
  by code_simp

section \<open>Type 1: properties\<close>

lemma py_int_error: "py_int s = Inl err \<Longrightarrow> err = ValueError"
  by (auto simp: py_int_def Let_def split: if_splits option.splits)

lemma Type1_parse_key_error: "Type1_parse_key key = Inl err \<Longrightarrow> err = ValueError"
  by (auto simp: Type1_parse_key_def split: list.splits sum.splits if_splits dest: py_int_error)

lemma Type1_parse_key_Some:
  assumes "Type1_parse_key key = Inr (Some m)"
  shows "\<exists>p0 p1 data_str. py_split CHR ''-'' key = [p0, p1, data_str]
           \<and> py_int p0 = Inr (ndx m) \<and> py_int p1 = Inr (ndy m)
           \<and> int (length data_str) = ndx m * ndy m * 2
           \<and> piece m = map (piece_at (ndx m) (ndy m) data_str) [0..<nat (ndx m * ndy m)]"
  using assms
  by (auto simp: Type1_parse_key_def split: list.splits sum.splits if_splits)

lemma Type1_parse_key_length:
  "Type1_parse_key key = Inr (Some m) \<Longrightarrow> length (piece m) = nat (ndx m * ndy m)"
  by (auto dest: Type1_parse_key_Some)

lemma Type1_init_Inr:
  assumes "Type1_init key_h key_s = Inr eng"
  shows "Type1_parse_key key_s = Inr (Some (Tt eng)) \<and> Type1_parse_key key_h = Inr (Some (Pt eng))
         \<and> ndx (Tt eng) = ndx (Pt eng) \<and> ndy (Tt eng) = ndy (Pt eng)"
  using assms
  by (auto simp: Type1_init_def split: sum.splits option.splits if_splits)

lemma map2_by_index:
  "length fs = length cs \<Longrightarrow> map2 g fs cs = map (\<lambda>i. g (fs ! i) (cs ! i)) [0..<length fs]"
  by (rule nth_equalityI) simp_all

lemma py_find_range: "- 1 \<le> py_find s t \<and> py_find s t < int (length s)"
  by (induction s) (simp_all add: Let_def)

lemma decode_char_range: "- 1 \<le> snd (decode_char t) \<and> snd (decode_char t) \<le> 51"
proof -
  have u: "- 1 \<le> py_find ''ABCDEFGHIJKLMNOPQRSTUVWXYZ'' t"
    "py_find ''ABCDEFGHIJKLMNOPQRSTUVWXYZ'' t < 26"
    using py_find_range [of "''ABCDEFGHIJKLMNOPQRSTUVWXYZ''" t] by (simp_all del: py_find.simps)
  have l: "- 1 \<le> py_find ''abcdefghijklmnopqrstuvwxyz'' t"
    "py_find ''abcdefghijklmnopqrstuvwxyz'' t < 26"
    using py_find_range [of "''abcdefghijklmnopqrstuvwxyz''" t] by (simp_all del: py_find.simps)
  show ?thesis
  proof (cases "py_find ''ABCDEFGHIJKLMNOPQRSTUVWXYZ'' t < 0")
    case True
    then have "snd (decode_char t) = 1 + 2 * py_find ''abcdefghijklmnopqrstuvwxyz'' t"
      unfolding decode_char_def Let_def by (simp only: if_True snd_conv)
    with l show ?thesis by linarith
  next
    case False
    then have "snd (decode_char t) = 0 + 2 * py_find ''ABCDEFGHIJKLMNOPQRSTUVWXYZ'' t"
      unfolding decode_char_def Let_def by (simp only: if_False snd_conv)
    with u False show ?thesis by linarith
  qed
qed

lemma piece_at_small: "small_tile (piece_at nx ny data_str d)"
proof -
  from decode_char_range [of "data_str ! (2 * d)"]
  have x: "\<bar>snd (decode_char (data_str ! (2 * d)))\<bar> < 2 ^ 52" by (simp add: abs_less_iff)
  from decode_char_range [of "data_str ! (2 * d + 1)"]
  have y: "\<bar>snd (decode_char (data_str ! (2 * d + 1)))\<bar> < 2 ^ 52"
    by (simp add: abs_less_iff)
  from x y show ?thesis by (simp add: small_tile_def piece_at_def Let_def)
qed

lemma parsed_tiles_small:
  assumes "Type1_parse_key key = Inr (Some m)" and "t \<in> set (piece m)"
  shows "small_tile t"
  using Type1_parse_key_Some [OF assms(1)] assms(2) piece_at_small by auto

lemma tile_coord_exact:
  "\<bar>c\<bar> < 2 ^ 52 \<Longrightarrow> tile_coord r e c = Inr ((c div 2) * r + (c mod 2) * e)"
  using py_floor_truediv_exact [of 2 c] by (simp add: tile_coord_def)

lemma tile_rect_small:
  "small_tile f \<Longrightarrow> small_tile c \<Longrightarrow>
   tile_rect r e h u f c = Inr (tile_rect_exact r e h u f c)"
  by (simp add: tile_rect_def tile_rect_exact_def small_tile_def tile_coord_exact)

lemma tile_rects_zip:
  "length fs = length cs \<Longrightarrow> \<forall>t \<in> set fs \<union> set cs. small_tile t \<Longrightarrow>
   tile_rects r e h u fs cs = Inr (map2 (tile_rect_exact r e h u) fs cs)"
  by (induction fs cs rule: list_induct2) (simp_all add: tile_rect_small)

lemma base_size_exact:
  assumes "\<bar>len\<bar> < 2 ^ 51"
  shows "base_size len = Inr (base_exact len)"
proof -
  have "0 \<le> len mod 8" "len mod 8 < 8" by simp_all
  with assms have "\<bar>len - len mod 8 - 1\<bar> < 2 ^ 52" by simp
  with py_floor_truediv_exact [of 7 "len - len mod 8 - 1"]
  show ?thesis by (simp add: base_size_def base_exact_def Let_def)
qed

lemma rem_size_exact: "rem_size len (base_exact len) = rem_exact len"
  by (simp add: rem_size_def rem_exact_def Let_def)

lemma Type1_calculate_coords_shape:
  assumes "Type1_init key_h key_s = Inr eng"
    and "\<bar>image_width\<bar> < 2 ^ 51" and "\<bar>image_height\<bar> < 2 ^ 51"
  shows "Type1_calculate_coords eng image_width image_height =
      Inr (map2 (tile_rect_exact (base_exact image_width) (rem_exact image_width)
                    (base_exact image_height) (rem_exact image_height))
              (piece (Tt eng)) (piece (Pt eng))
        @ (if base_exact image_width * (ndx (Tt eng) - 1) + rem_exact image_width < image_width
           then [\<lparr>xsrc = base_exact image_width * (ndx (Tt eng) - 1) + rem_exact image_width,
                   ysrc = 0,
                   width = image_width
                     - (base_exact image_width * (ndx (Tt eng) - 1) + rem_exact image_width),
                   height = base_exact image_height * (ndy (Tt eng) - 1) + rem_exact image_height,
                   xdest = base_exact image_width * (ndx (Tt eng) - 1) + rem_exact image_width,
                   ydest = 0\<rparr>]
           else [])
        @ (if base_exact image_height * (ndy (Tt eng) - 1) + rem_exact image_height < image_height
           then [\<lparr>xsrc = 0,
                   ysrc = base_exact image_height * (ndy (Tt eng) - 1) + rem_exact image_height,
                   width = image_width,
                   height = image_height
                     - (base_exact image_height * (ndy (Tt eng) - 1) + rem_exact image_height),
                   xdest = 0,
                   ydest = base_exact image_height * (ndy (Tt eng) - 1) + rem_exact image_height\<rparr>]
           else []))"
proof -
  from Type1_init_Inr [OF assms(1)]
  have ps: "Type1_parse_key key_s = Inr (Some (Tt eng))"
    and ph: "Type1_parse_key key_h = Inr (Some (Pt eng))"
    and eq: "ndx (Tt eng) = ndx (Pt eng)" "ndy (Tt eng) = ndy (Pt eng)"
    by simp_all
  have len: "length (piece (Tt eng)) = length (piece (Pt eng))"
    using Type1_parse_key_length [OF ps] Type1_parse_key_length [OF ph] eq by simp
  have small: "\<forall>t \<in> set (piece (Tt eng)) \<union> set (piece (Pt eng)). small_tile t"
    using parsed_tiles_small [OF ps] parsed_tiles_small [OF ph] by blast
  show ?thesis
    by (simp only: Type1_calculate_coords_def base_size_exact [OF assms(2)]
        base_size_exact [OF assms(3)] sum.case Let_def rem_size_exact
        tile_rects_zip [OF len small])
qed

text \<open>
  Claim C5, as stated for every width and height, fails beyond the precision of a float.
  For the key \<^verbatim>\<open>"1-1-AA"\<close> and a \<open>2^60\<close> by 8 image, \<^verbatim>\<open>math.floor((n - 1) / 7)\<close> is
  164703072086692416 and not the floor 164703072086692425 of the quotient, so that
  \<open>r = 164703072086692416\<close> and \<open>e = 64\<close>, where the formulas of the claim give
  \<open>r = 164703072086692424\<close> and \<open>e = 8\<close>: the tile rectangle is 64 wide and the right
  remainder starts at \<open>x = 64\<close>. For a width of \<open>2^1027\<close> the division raises
  OverflowError and no rectangle is returned.
\<close>

theorem type1_float_division_counterexample:
  "Type1_init ''1-1-AA'' ''1-1-AA'' =
     Inr \<lparr>Tt = \<lparr>ndx = 1, ndy = 1,
                 piece = [\<lparr>piece_x = 0, piece_y = 0, piece_w = 1, piece_h = 1\<rparr>]\<rparr>,
          Pt = \<lparr>ndx = 1, ndy = 1,
                 piece = [\<lparr>piece_x = 0, piece_y = 0, piece_w = 1, piece_h = 1\<rparr>]\<rparr>\<rparr>
   \<and> Type1_calculate_coords
       \<lparr>Tt = \<lparr>ndx = 1, ndy = 1,
                 piece = [\<lparr>piece_x = 0, piece_y = 0, piece_w = 1, piece_h = 1\<rparr>]\<rparr>,
          Pt = \<lparr>ndx = 1, ndy = 1,
                 piece = [\<lparr>piece_x = 0, piece_y = 0, piece_w = 1, piece_h = 1\<rparr>]\<rparr>\<rparr>
       1152921504606846976 8 =
     Inr [\<lparr>xsrc = 0, ysrc = 0, width = 64, height = 8, xdest = 0, ydest = 0\<rparr>,
          \<lparr>xsrc = 64, ysrc = 0, width = 1152921504606846912, height = 8,
            xdest = 64, ydest = 0\<rparr>]
   \<and> base_size 1152921504606846976 = Inr 164703072086692416
   \<and> base_exact 1152921504606846976 = 164703072086692424
   \<and> rem_exact 1152921504606846976 = 8
   \<and> Type1_calculate_coords
       \<lparr>Tt = \<lparr>ndx = 1, ndy = 1,
                 piece = [\<lparr>piece_x = 0, piece_y = 0, piece_w = 1, piece_h = 1\<rparr>]\<rparr>,
          Pt = \<lparr>ndx = 1, ndy = 1,
                 piece = [\<lparr>piece_x = 0, piece_y = 0, piece_w = 1, piece_h = 1\<rparr>]\<rparr>\<rparr>
       (2 ^ 1027) 8 = Inl OverflowError"
  by code_simp

text \<open>
  Claim C5, amended: for an engine that \<^verbatim>\<open>Type1.__init__\<close> has constructed, and a width
  and a height below \<open>2^51\<close> in magnitude, \<^verbatim>\<open>calculate_coords\<close> raises nothing and
  returns: one rectangle per index \<open>i\<close> of the tile lists (of equal length \<open>ndx * ndy\<close>), in
  index order, with source origin and size from the scramble tile \<open>f\<close> and destination
  origin from the unscramble tile \<open>c\<close>, over the bases \<open>n = width - width mod 8\<close>,
  \<open>r = (n - 1) div 7\<close> less its remainder modulo 8, \<open>e = n - 7 r\<close> (and \<open>s\<close>, \<open>h\<close>,
  \<open>u\<close> from the height); then the right remainder \<open>(L, 0, width - L, V, L, 0)\<close> exactly
  when \<open>L = r (ndx - 1) + e < width\<close>; then the bottom remainder
  \<open>(0, V, width, height - V, 0, V)\<close> exactly when \<open>V = h (ndy - 1) + u < height\<close>.
\<close>

theorem type1_calculate_coords_formula:
  assumes "Type1_init key_h key_s = Inr eng"
    and "\<bar>image_width\<bar> < 2 ^ 51" and "\<bar>image_height\<bar> < 2 ^ 51"
  shows "length (piece (Tt eng)) = nat (ndx (Tt eng) * ndy (Tt eng))
       \<and> length (piece (Pt eng)) = length (piece (Tt eng))
       \<and> Type1_calculate_coords eng image_width image_height =
         (let n = image_width - image_width mod 8;
              r = (n - 1) div 7 - ((n - 1) div 7) mod 8;
              e = n - 7 * r;
              s = image_height - image_height mod 8;
              h = (s - 1) div 7 - ((s - 1) div 7) mod 8;
              u = s - 7 * h;
              L = r * (ndx (Tt eng) - 1) + e;
              V = h * (ndy (Tt eng) - 1) + u
          in Inr (map (\<lambda>i. let f = piece (Tt eng) ! i; c = piece (Pt eng) ! i
                        in \<lparr>xsrc = (piece_x f div 2) * r + (piece_x f mod 2) * e,
                            ysrc = (piece_y f div 2) * h + (piece_y f mod 2) * u,
                            width = (piece_w f div 2) * r + (piece_w f mod 2) * e,
                            height = (piece_h f div 2) * h + (piece_h f mod 2) * u,
                            xdest = (piece_x c div 2) * r + (piece_x c mod 2) * e,
                            ydest = (piece_y c div 2) * h + (piece_y c mod 2) * u\<rparr>)
                    [0..<length (piece (Tt eng))]
                  @ (if L < image_width
                     then [\<lparr>xsrc = L, ysrc = 0, width = image_width - L, height = V,
                             xdest = L, ydest = 0\<rparr>]
                     else [])
                  @ (if V < image_height
                     then [\<lparr>xsrc = 0, ysrc = V, width = image_width, height = image_height - V,
                             xdest = 0, ydest = V\<rparr>]
                     else [])))" (is "_ \<and> _ \<and> _ = ?rhs")
proof -
  from Type1_init_Inr [OF assms(1)]
  have ps: "Type1_parse_key key_s = Inr (Some (Tt eng))"
    and ph: "Type1_parse_key key_h = Inr (Some (Pt eng))"
    and eq: "ndx (Tt eng) = ndx (Pt eng)" "ndy (Tt eng) = ndy (Pt eng)"
    by simp_all
  have lt: "length (piece (Tt eng)) = nat (ndx (Tt eng) * ndy (Tt eng))"
    using ps by (rule Type1_parse_key_length)
  have lp: "length (piece (Pt eng)) = length (piece (Tt eng))"
    using Type1_parse_key_length [OF ph] lt eq by simp
  have "Type1_calculate_coords eng image_width image_height = ?rhs"
    unfolding Type1_calculate_coords_shape [OF assms] map2_by_index [OF lp [symmetric]]
      base_exact_def rem_exact_def tile_rect_exact_def Let_def
    by (simp only:)
  with lt lp show ?thesis by (simp only: simp_thms)
qed

theorem type1_calculate_coords_formula_witness:
  "Type1_init ''2-2-AAABBABB'' ''2-2-aaaAAaAA'' =
     Inr \<lparr>Tt = \<lparr>ndx = 2, ndy = 2,
                 piece = [\<lparr>piece_x = 1, piece_y = 1, piece_w = 2, piece_h = 2\<rparr>,
                          \<lparr>piece_x = 1, piece_y = 0, piece_w = 2, piece_h = 1\<rparr>,
                          \<lparr>piece_x = 0, piece_y = 1, piece_w = 1, piece_h = 2\<rparr>,
                          \<lparr>piece_x = 0, piece_y = 0, piece_w = 1, piece_h = 1\<rparr>]\<rparr>,
          Pt = \<lparr>ndx = 2, ndy = 2,
                 piece = [\<lparr>piece_x = 0, piece_y = 0, piece_w = 2, piece_h = 2\<rparr>,
                          \<lparr>piece_x = 0, piece_y = 2, piece_w = 2, piece_h = 1\<rparr>,
                          \<lparr>piece_x = 2, piece_y = 0, piece_w = 1, piece_h = 2\<rparr>,
                          \<lparr>piece_x = 2, piece_y = 2, piece_w = 1, piece_h = 1\<rparr>]\<rparr>\<rparr>
   \<and> Type1_calculate_coords
       \<lparr>Tt = \<lparr>ndx = 2, ndy = 2,
                 piece = [\<lparr>piece_x = 1, piece_y = 1, piece_w = 2, piece_h = 2\<rparr>,
                          \<lparr>piece_x = 1, piece_y = 0, piece_w = 2, piece_h = 1\<rparr>,
                          \<lparr>piece_x = 0, piece_y = 1, piece_w = 1, piece_h = 2\<rparr>,
                          \<lparr>piece_x = 0, piece_y = 0, piece_w = 1, piece_h = 1\<rparr>]\<rparr>,
          Pt = \<lparr>ndx = 2, ndy = 2,
                 piece = [\<lparr>piece_x = 0, piece_y = 0, piece_w = 2, piece_h = 2\<rparr>,
                          \<lparr>piece_x = 0, piece_y = 2, piece_w = 2, piece_h = 1\<rparr>,
                          \<lparr>piece_x = 2, piece_y = 0, piece_w = 1, piece_h = 2\<rparr>,
                          \<lparr>piece_x = 2, piece_y = 2, piece_w = 1, piece_h = 1\<rparr>]\<rparr>\<rparr> 100 100 =
     Inr [\<lparr>xsrc = 40, ysrc = 40, width = 8, height = 8, xdest = 0, ydest = 0\<rparr>,
          \<lparr>xsrc = 40, ysrc = 0, width = 8, height = 40, xdest = 0, ydest = 8\<rparr>,
          \<lparr>xsrc = 0, ysrc = 40, width = 40, height = 8, xdest = 8, ydest = 0\<rparr>,
          \<lparr>xsrc = 0, ysrc = 0, width = 40, height = 40, xdest = 8, ydest = 8\<rparr>,
          \<lparr>xsrc = 48, ysrc = 0, width = 52, height = 48, xdest = 48, ydest = 0\<rparr>,
          \<lparr>xsrc = 0, ysrc = 48, width = 100, height = 52, xdest = 0, ydest = 48\<rparr>]"
proof -
  let ?E = "\<lparr>Tt = \<lparr>ndx = 2, ndy = 2,
                 piece = [\<lparr>piece_x = 1, piece_y = 1, piece_w = 2, piece_h = 2\<rparr>,
                          \<lparr>piece_x = 1, piece_y = 0, piece_w = 2, piece_h = 1\<rparr>,
                          \<lparr>piece_x = 0, piece_y = 1, piece_w = 1, piece_h = 2\<rparr>,
                          \<lparr>piece_x = 0, piece_y = 0, piece_w = 1, piece_h = 1\<rparr>]\<rparr>,
          Pt = \<lparr>ndx = 2, ndy = 2,
                 piece = [\<lparr>piece_x = 0, piece_y = 0, piece_w = 2, piece_h = 2\<rparr>,
                          \<lparr>piece_x = 0, piece_y = 2, piece_w = 2, piece_h = 1\<rparr>,
                          \<lparr>piece_x = 2, piece_y = 0, piece_w = 1, piece_h = 2\<rparr>,
                          \<lparr>piece_x = 2, piece_y = 2, piece_w = 1, piece_h = 1\<rparr>]\<rparr>\<rparr>"
  have h: "Type1_init ''2-2-AAABBABB'' ''2-2-aaaAAaAA'' = Inr ?E"
    by code_simp
  from type1_calculate_coords_formula [OF h, of 100 100]
  have "Type1_calculate_coords ?E 100 100 =
     Inr [\<lparr>xsrc = 40, ysrc = 40, width = 8, height = 8, xdest = 0, ydest = 0\<rparr>,
          \<lparr>xsrc = 40, ysrc = 0, width = 8, height = 40, xdest = 0, ydest = 8\<rparr>,
          \<lparr>xsrc = 0, ysrc = 40, width = 40, height = 8, xdest = 8, ydest = 0\<rparr>,
          \<lparr>xsrc = 0, ysrc = 0, width = 40, height = 40, xdest = 8, ydest = 8\<rparr>,
          \<lparr>xsrc = 48, ysrc = 0, width = 52, height = 48, xdest = 48, ydest = 0\<rparr>,
          \<lparr>xsrc = 0, ysrc = 48, width = 100, height = 52, xdest = 0, ydest = 48\<rparr>]"
    by (simp add: Let_def upt_conv_Cons)
  with h show ?thesis by (simp only: simp_thms)
qed

text \<open>
  Claim C2. The key \<^verbatim>\<open>"1-1-AA"\<close> parses to one piece \<open>(x = 0, y = 0, w = 1, h = 1)\<close>; the
  engine built from it as both keys holds that model in both maps; for a 10 by 10 image
  it returns the tile rectangle \<open>(0, 0, 8, 8, 0, 0)\<close>, the right remainder
  \<open>(8, 0, 2, 8, 8, 0)\<close> and the bottom remainder \<open>(0, 8, 10, 2, 0, 8)\<close>, and their
  destination blocks partition the image.
\<close>

theorem type1_concrete_case:
  "Type1_parse_key ''1-1-AA'' =
     Inr (Some \<lparr>ndx = 1, ndy = 1,
                 piece = [\<lparr>piece_x = 0, piece_y = 0, piece_w = 1, piece_h = 1\<rparr>]\<rparr>)
   \<and> Type1_init ''1-1-AA'' ''1-1-AA'' =
     Inr \<lparr>Tt = \<lparr>ndx = 1, ndy = 1,
                 piece = [\<lparr>piece_x = 0, piece_y = 0, piece_w = 1, piece_h = 1\<rparr>]\<rparr>,
          Pt = \<lparr>ndx = 1, ndy = 1,
                 piece = [\<lparr>piece_x = 0, piece_y = 0, piece_w = 1, piece_h = 1\<rparr>]\<rparr>\<rparr>
   \<and> Type1_calculate_coords
       \<lparr>Tt = \<lparr>ndx = 1, ndy = 1,
                 piece = [\<lparr>piece_x = 0, piece_y = 0, piece_w = 1, piece_h = 1\<rparr>]\<rparr>,
          Pt = \<lparr>ndx = 1, ndy = 1,
                 piece = [\<lparr>piece_x = 0, piece_y = 0, piece_w = 1, piece_h = 1\<rparr>]\<rparr>\<rparr> 10 10 =
     Inr [\<lparr>xsrc = 0, ysrc = 0, width = 8, height = 8, xdest = 0, ydest = 0\<rparr>,
          \<lparr>xsrc = 8, ysrc = 0, width = 2, height = 8, xdest = 8, ydest = 0\<rparr>,
          \<lparr>xsrc = 0, ysrc = 8, width = 10, height = 2, xdest = 0, ydest = 8\<rparr>]
   \<and> partitions
       [\<lparr>xsrc = 0, ysrc = 0, width = 8, height = 8, xdest = 0, ydest = 0\<rparr>,
        \<lparr>xsrc = 8, ysrc = 0, width = 2, height = 8, xdest = 8, ydest = 0\<rparr>,
        \<lparr>xsrc = 0, ysrc = 8, width = 10, height = 2, xdest = 0, ydest = 8\<rparr>] 10 10"
proof -
  have a: "Type1_parse_key ''1-1-AA'' =
     Inr (Some \<lparr>ndx = 1, ndy = 1,
                 piece = [\<lparr>piece_x = 0, piece_y = 0, piece_w = 1, piece_h = 1\<rparr>]\<rparr>)"
    by code_simp
  have b: "Type1_init ''1-1-AA'' ''1-1-AA'' =
     Inr \<lparr>Tt = \<lparr>ndx = 1, ndy = 1,
                 piece = [\<lparr>piece_x = 0, piece_y = 0, piece_w = 1, piece_h = 1\<rparr>]\<rparr>,
          Pt = \<lparr>ndx = 1, ndy = 1,
                 piece = [\<lparr>piece_x = 0, piece_y = 0, piece_w = 1, piece_h = 1\<rparr>]\<rparr>\<rparr>"
    by code_simp
  have c: "Type1_calculate_coords
       \<lparr>Tt = \<lparr>ndx = 1, ndy = 1,
                 piece = [\<lparr>piece_x = 0, piece_y = 0, piece_w = 1, piece_h = 1\<rparr>]\<rparr>,
          Pt = \<lparr>ndx = 1, ndy = 1,
                 piece = [\<lparr>piece_x = 0, piece_y = 0, piece_w = 1, piece_h = 1\<rparr>]\<rparr>\<rparr> 10 10 =
     Inr [\<lparr>xsrc = 0, ysrc = 0, width = 8, height = 8, xdest = 0, ydest = 0\<rparr>,
          \<lparr>xsrc = 8, ysrc = 0, width = 2, height = 8, xdest = 8, ydest = 0\<rparr>,
          \<lparr>xsrc = 0, ysrc = 8, width = 10, height = 2, xdest = 0, ydest = 8\<rparr>]"
    by code_simp
  have d: "partitions
       [\<lparr>xsrc = 0, ysrc = 0, width = 8, height = 8, xdest = 0, ydest = 0\<rparr>,
        \<lparr>xsrc = 8, ysrc = 0, width = 2, height = 8, xdest = 8, ydest = 0\<rparr>,
        \<lparr>xsrc = 0, ysrc = 8, width = 10, height = 2, xdest = 0, ydest = 8\<rparr>] 10 10"
    by (auto simp: partitions_def cover_count_def in_dest_def)
  from a b c d show ?thesis by (simp only: simp_thms)
qed

theorem type1_concrete_case_witness:
  "cover_count
       [\<lparr>xsrc = 0, ysrc = 0, width = 8, height = 8, xdest = 0, ydest = 0\<rparr>,
        \<lparr>xsrc = 8, ysrc = 0, width = 2, height = 8, xdest = 8, ydest = 0\<rparr>,
        \<lparr>xsrc = 0, ysrc = 8, width = 10, height = 2, xdest = 0, ydest = 8\<rparr>] 9 9 = 1"
  using type1_concrete_case by (simp add: partitions_def)

section \<open>Type 1: construction failures and the data alphabet\<close>

lemma Type1_parse_key_cases:
  "Type1_parse_key key = Inl ValueError \<or> Type1_parse_key key = Inr None
   \<or> (\<exists>m. Type1_parse_key key = Inr (Some m))"
proof (cases "Type1_parse_key key")
  case (Inl err)
  then show ?thesis using Type1_parse_key_error by simp
next
  case (Inr r)
  then show ?thesis by (cases r) simp_all
qed

lemma Type1_parse_key_wrong_parts:
  "length (py_split CHR ''-'' key) \<noteq> 3 \<Longrightarrow> Type1_parse_key key = Inr None"
  by (auto simp: Type1_parse_key_def split: list.splits)

lemma Type1_parse_key_wrong_length:
  "py_split CHR ''-'' key = [p0, p1, data_str] \<Longrightarrow> py_int p0 = Inr nx \<Longrightarrow> py_int p1 = Inr ny
   \<Longrightarrow> int (length data_str) \<noteq> 2 * nx * ny \<Longrightarrow> Type1_parse_key key = Inr None"
  by (simp add: Type1_parse_key_def mult.commute mult.left_commute)

text \<open>
  Claim C8. If either key does not parse to a model (the parse returned None, as for a
  wrong number of parts or a wrong data length, or \<^verbatim>\<open>int()\<close> raised), or the two
  models disagree on \<open>ndx\<close> or \<open>ndy\<close>, then \<^verbatim>\<open>Type1.__init__\<close> raises ValueError: no
  engine is produced.
\<close>

theorem type1_init_fails:
  assumes "(\<forall>m. Type1_parse_key key_s \<noteq> Inr (Some m))
         \<or> (\<forall>m. Type1_parse_key key_h \<noteq> Inr (Some m))
         \<or> (\<exists>ms mh. Type1_parse_key key_s = Inr (Some ms) \<and> Type1_parse_key key_h = Inr (Some mh)
                \<and> (ndx ms \<noteq> ndx mh \<or> ndy ms \<noteq> ndy mh))"
  shows "Type1_init key_h key_s = Inl ValueError"
proof -
  consider (s) "\<forall>m. Type1_parse_key key_s \<noteq> Inr (Some m)"
    | (h) "\<exists>ms. Type1_parse_key key_s = Inr (Some ms)" "\<forall>m. Type1_parse_key key_h \<noteq> Inr (Some m)"
    | (d) ms mh where "Type1_parse_key key_s = Inr (Some ms)" "Type1_parse_key key_h = Inr (Some mh)"
        "ndx ms \<noteq> ndx mh \<or> ndy ms \<noteq> ndy mh"
    using assms by blast
  then show ?thesis
  proof cases
    case s
    with Type1_parse_key_cases [of key_s]
    have "Type1_parse_key key_s = Inl ValueError \<or> Type1_parse_key key_s = Inr None" by blast
    moreover from Type1_parse_key_cases [of key_h]
    have "Type1_parse_key key_h = Inl ValueError \<or> (\<exists>r. Type1_parse_key key_h = Inr r)" by blast
    ultimately show ?thesis
      by (auto simp: Type1_init_def split: option.splits)
  next
    case h
    from h(2) Type1_parse_key_cases [of key_h]
    have "Type1_parse_key key_h = Inl ValueError \<or> Type1_parse_key key_h = Inr None" by blast
    with h(1) show ?thesis
      by (auto simp: Type1_init_def)
  next
    case d
    then show ?thesis by (auto simp: Type1_init_def)
  qed
qed

theorem type1_init_fails_witness:
  "Type1_parse_key ''1-1'' = Inr None
   \<and> Type1_init ''1-1-AA'' ''1-1'' = Inl ValueError
   \<and> Type1_parse_key ''1-x-AA'' = Inl ValueError
   \<and> Type1_init ''1-x-AA'' ''1-1-AA'' = Inl ValueError
   \<and> Type1_init ''2-1-AAAA'' ''1-1-AA'' = Inl ValueError"
proof -
  have a: "Type1_parse_key ''1-1'' = Inr None" by code_simp
  have b: "Type1_parse_key ''1-x-AA'' = Inl ValueError" by code_simp
  have c: "Type1_parse_key ''1-1-AA'' =
      Inr (Some \<lparr>ndx = 1, ndy = 1, piece = [\<lparr>piece_x = 0, piece_y = 0, piece_w = 1, piece_h = 1\<rparr>]\<rparr>)"
    by code_simp
  have d: "Type1_parse_key ''2-1-AAAA'' =
      Inr (Some \<lparr>ndx = 2, ndy = 1, piece = [\<lparr>piece_x = 0, piece_y = 0, piece_w = 2, piece_h = 1\<rparr>,
                                            \<lparr>piece_x = 0, piece_y = 0, piece_w = 1, piece_h = 1\<rparr>]\<rparr>)"
    by code_simp
  have "Type1_init ''1-1-AA'' ''1-1'' = Inl ValueError"
    using type1_init_fails [of "''1-1''" "''1-1-AA''"] a by simp
  moreover have "Type1_init ''1-x-AA'' ''1-1-AA'' = Inl ValueError"
    using type1_init_fails [of "''1-1-AA''" "''1-x-AA''"] b by simp
  moreover have "Type1_init ''2-1-AAAA'' ''1-1-AA'' = Inl ValueError"
    using type1_init_fails [of "''1-1-AA''" "''2-1-AAAA''"] c d by simp
  ultimately show ?thesis using a b by (simp only: simp_thms)
qed

lemma py_find_absent: "t \<notin> set s \<Longrightarrow> py_find s t = - 1"
  by (induction s) (auto simp: Let_def)

lemma upper_letters: "c \<in> set ''ABCDEFGHIJKLMNOPQRSTUVWXYZ'' \<Longrightarrow> is_letter c"
  unfolding is_letter_def py_ord_def
  by (elim disjE | simp only: set_simps insert_iff empty_iff)+ simp_all

lemma lower_letters: "c \<in> set ''abcdefghijklmnopqrstuvwxyz'' \<Longrightarrow> is_letter c"
  unfolding is_letter_def py_ord_def
  by (elim disjE | simp only: set_simps insert_iff empty_iff)+ simp_all

lemma nonletter_not_upper: "\<not> is_letter c \<Longrightarrow> c \<notin> set ''ABCDEFGHIJKLMNOPQRSTUVWXYZ''"
  using upper_letters by blast

lemma nonletter_not_lower: "\<not> is_letter c \<Longrightarrow> c \<notin> set ''abcdefghijklmnopqrstuvwxyz''"
  using lower_letters by blast

lemma decode_char_nonletter:
  assumes "\<not> is_letter c"
  shows "decode_char c = (1, - 1)"
proof -
  have u: "py_find ''ABCDEFGHIJKLMNOPQRSTUVWXYZ'' c = - 1"
    using assms by (intro py_find_absent nonletter_not_upper)
  have l: "py_find ''abcdefghijklmnopqrstuvwxyz'' c = - 1"
    using assms by (intro py_find_absent nonletter_not_lower)
  show ?thesis
    unfolding decode_char_def u l by (simp add: Let_def)
qed

text \<open>
  Claim C7, as stated, fails: the key \<^verbatim>\<open>"1-1-A1"\<close> has the digit \<open>1\<close> in its data
  section, yet it parses (the digit decodes to \<open>y = -1\<close>) and the engine is constructed.
\<close>

theorem type1_parse_key_nonletter_counterexample:
  "Type1_parse_key ''1-1-A1'' =
     Inr (Some \<lparr>ndx = 1, ndy = 1,
                 piece = [\<lparr>piece_x = 0, piece_y = - 1, piece_w = 1, piece_h = 1\<rparr>]\<rparr>)
   \<and> Type1_init ''1-1-A1'' ''1-1-A1'' =
     Inr \<lparr>Tt = \<lparr>ndx = 1, ndy = 1,
                 piece = [\<lparr>piece_x = 0, piece_y = - 1, piece_w = 1, piece_h = 1\<rparr>]\<rparr>,
          Pt = \<lparr>ndx = 1, ndy = 1,
                 piece = [\<lparr>piece_x = 0, piece_y = - 1, piece_w = 1, piece_h = 1\<rparr>]\<rparr>\<rparr>"
  by code_simp

text \<open>
  Claim C7, amended. A character of the data section that is not an ASCII letter does
  not make the parse fail: a key that splits into three parts, whose first two parts
  \<^verbatim>\<open>int()\<close> reads as \<open>ndx\<close> and \<open>ndy\<close> and whose data has length \<open>2 * ndx * ndy\<close>, parses
  to a model and constructs an engine (as both keys); the coordinate decoded from the
  character at position \<open>k\<close> (the \<open>x\<close> of piece \<open>k div 2\<close> for even \<open>k\<close>, its \<open>y\<close> for odd
  \<open>k\<close>) is \<open>-1\<close>.
\<close>

theorem type1_parse_key_nonletter:
  assumes "py_split CHR ''-'' key = [p0, p1, data_str]"
    and "py_int p0 = Inr nx" and "py_int p1 = Inr ny"
    and "int (length data_str) = 2 * nx * ny"
    and "k < length data_str" and "\<not> is_letter (data_str ! k)"
  shows "\<exists>m. Type1_parse_key key = Inr (Some m) \<and> Type1_init key key = Inr \<lparr>Tt = m, Pt = m\<rparr>
           \<and> ndx m = nx \<and> ndy m = ny \<and> k div 2 < length (piece m)
           \<and> (if even k then piece_x (piece m ! (k div 2)) else piece_y (piece m ! (k div 2))) = - 1"
proof -
  let ?m = "\<lparr>ndx = nx, ndy = ny, piece = map (piece_at nx ny data_str) [0..<nat (nx * ny)]\<rparr>"
  have p: "Type1_parse_key key = Inr (Some ?m)"
    using assms(1-4) by (simp add: Type1_parse_key_def mult.commute mult.left_commute)
  then have i: "Type1_init key key = Inr \<lparr>Tt = ?m, Pt = ?m\<rparr>"
    by (simp add: Type1_init_def)
  have len: "k div 2 < nat (nx * ny)"
    using assms(4,5) by linarith
  have "(if even k then piece_x (piece_at nx ny data_str (k div 2))
         else piece_y (piece_at nx ny data_str (k div 2))) = - 1"
  proof (cases "even k")
    case True
    then have "2 * (k div 2) = k" by simp
    with assms(6) True show ?thesis
      by (simp add: piece_at_def Let_def decode_char_nonletter)
  next
    case False
    then have "2 * (k div 2) + 1 = k" by presburger
    with assms(6) False show ?thesis
      by (simp add: piece_at_def Let_def decode_char_nonletter)
  qed
  with p i len show ?thesis by (simp split: if_splits)
qed

theorem type1_parse_key_nonletter_witness:
  "\<exists>m. Type1_parse_key ''1-1-A1'' = Inr (Some m) \<and> Type1_init ''1-1-A1'' ''1-1-A1'' = Inr \<lparr>Tt = m, Pt = m\<rparr>
           \<and> ndx m = 1 \<and> ndy m = 1 \<and> piece_y (piece m ! 0) = - 1"
proof -
  have a: "py_split CHR ''-'' ''1-1-A1'' = [''1'', ''1'', ''A1'']" by code_simp
  have b: "py_int ''1'' = Inr 1" by code_simp
  have c: "\<not> is_letter (''A1'' ! 1)" by (simp add: is_letter_def py_ord_def)
  have d: "int (length ''A1'') = 2 * 1 * 1" by simp
  have e: "1 < length ''A1''" by simp
  from type1_parse_key_nonletter [OF a b b d e c]
  obtain m where "Type1_parse_key ''1-1-A1'' = Inr (Some m)"
    "Type1_init ''1-1-A1'' ''1-1-A1'' = Inr \<lparr>Tt = m, Pt = m\<rparr>" "ndx m = 1" "ndy m = 1"
    "(if even (1::nat) then piece_x (piece m ! (1 div 2)) else piece_y (piece m ! (1 div 2))) = - 1"
    by blast
  then show ?thesis by (intro exI [of _ m]) simp
qed

section \<open>Type 2: the codec on the grammar's data class\<close>

lemma Jt_length: "length Jt = 128"
  by (simp add: Jt_def)

lemma Jt_class_entries:
  "list_all (\<lambda>n. 0 \<le> Jt ! n \<and> Jt ! n \<le> 63) ([45, 95] @ [48..<58] @ [65..<91] @ [97..<123])"
  by code_simp

lemma data_class_code:
  assumes "data_class c"
  shows "(of_char c :: nat) \<in> set ([45, 95] @ [48..<58] @ [65..<91] @ [97..<123])"
proof -
  let ?n = "of_char c :: nat"
  have o: "py_ord c = int ?n" by (simp add: py_ord_def of_nat_of_char)
  have "c = CHR ''-'' \<Longrightarrow> ?n = 45" by simp
  moreover have "c = CHR ''_'' \<Longrightarrow> ?n = 95" by simp
  ultimately have "?n = 45 \<or> ?n = 95 \<or> (48 \<le> ?n \<and> ?n < 58) \<or> (65 \<le> ?n \<and> ?n < 91)
      \<or> (97 \<le> ?n \<and> ?n < 123)"
    using assms unfolding data_class_def is_digit_def o by linarith
  then show ?thesis
    by (simp only: set_append set_upt atLeastLessThan_iff Un_iff list.set insert_iff empty_iff)
      blast
qed

lemma data_class_decode:
  assumes "data_class c"
  shows "0 \<le> Type2_decode_char (py_ord c) \<and> Type2_decode_char (py_ord c) \<le> 63"
proof -
  let ?n = "of_char c :: nat"
  from data_class_code [OF assms] Jt_class_entries
  have r: "0 \<le> Jt ! ?n \<and> Jt ! ?n \<le> 63"
    unfolding list_all_iff by blast
  from data_class_code [OF assms] have "?n < 128" by auto
  moreover have "py_ord c = int ?n" by (simp add: py_ord_def of_nat_of_char)
  ultimately show ?thesis
    using r by (simp add: Type2_decode_char_def Jt_length)
qed

lemma collect_Inr:
  "collect g xs = Inr vs \<Longrightarrow> length vs = length xs \<and> (\<forall>n < length xs. g (xs ! n) = Inr (vs ! n))"
proof (induction xs arbitrary: vs)
  case Nil
  then show ?case by simp
next
  case (Cons x xs)
  then obtain v ws where v: "g x = Inr v" and ws: "collect g xs = Inr ws" and vs: "vs = v # ws"
    by (auto split: sum.splits)
  from Cons.IH [OF ws] v vs show ?case
    by (auto simp: nth_Cons split: nat.splits)
qed

lemma collect_all_Inr:
  "(\<And>x. x \<in> set xs \<Longrightarrow> g x = Inr (f x)) \<Longrightarrow> collect g xs = Inr (map f xs)"
  by (induction xs) simp_all

lemma py_nth_Inr: "py_nth xs i = Inr v \<Longrightarrow> v \<in> set xs"
  by (auto simp: py_nth_def Let_def split: if_splits)

lemma py_nth_in_range: "0 \<le> i \<Longrightarrow> i < int (length xs) \<Longrightarrow> py_nth xs i = Inr (xs ! nat i)"
  by (simp add: py_nth_def)

lemma decode_at_class:
  assumes "list_all data_class data_str" and "decode_at data_str k = Inr v"
  shows "0 \<le> v \<and> v \<le> 63"
proof -
  from assms(2) obtain c where c: "py_nth data_str k = Inr c" and v: "v = Type2_decode_char (py_ord c)"
    by (auto simp: decode_at_def split: sum.splits)
  from py_nth_Inr [OF c] assms(1) have "data_class c" by (simp add: list_all_iff)
  with v show ?thesis using data_class_decode by simp
qed

lemma collect_decode_class:
  assumes "list_all data_class data_str" and "collect (\<lambda>i. decode_at data_str (g i)) xs = Inr vs"
    and "v \<in> set vs"
  shows "0 \<le> v \<and> v \<le> 63"
proof -
  from assms(3) obtain n where n: "n < length vs" "v = vs ! n" by (auto simp: in_set_conv_nth)
  from collect_Inr [OF assms(2)] n have "decode_at data_str (g (xs ! n)) = Inr v" by simp
  with assms(1) show ?thesis by (rule decode_at_class)
qed

lemma match_key_data_class:
  "match_key key = Some (g1, g2, g3, g4, g5) \<Longrightarrow> list_all data_class g5"
  by (auto simp: match_key_def Let_def split: if_splits)

lemma parse_sub_key_class:
  assumes "list_all data_class data_str" and "Type2_parse_sub_key self data_str = Inr sk"
    and "v \<in> set (t_list sk) \<union> set (n_list sk) \<union> set (p_list sk)"
  shows "0 \<le> v \<and> v \<le> 63"
proof -
  from assms(2) obtain ts ns ps where
    t: "collect (\<lambda>i. decode_at data_str i) (py_range (T self)) = Inr ts"
    and n: "collect (\<lambda>i. decode_at data_str (T self + i)) (py_range (j self)) = Inr ns"
    and p: "collect (\<lambda>i. decode_at data_str (T self + j self + i)) (py_range (T self * j self)) = Inr ps"
    and sk: "sk = \<lparr>t_list = ts, n_list = ns, p_list = ps\<rparr>"
    by (auto simp: Type2_parse_sub_key_def split: sum.splits)
  from assms(3) sk consider "v \<in> set ts" | "v \<in> set ns" | "v \<in> set ps" by auto
  then show ?thesis
  proof cases
    case 1
    with assms(1) t show ?thesis by (rule collect_decode_class)
  next
    case 2
    with assms(1) n show ?thesis by (rule collect_decode_class)
  next
    case 3
    with assms(1) p show ?thesis by (rule collect_decode_class)
  qed
qed

text \<open>
  Claim C10. Every character of the class \<^verbatim>\<open>[-_0-9A-Za-z]\<close> decodes through the table to
  a value from 0 to 63; so for a key that matches the grammar, every value that
  \<^verbatim>\<open>_parse_sub_key\<close> decodes from its data section (group 5) lies from 0 to 63, and the
  codec's \<open>-1\<close> does not occur.
\<close>

theorem type2_class_decodes:
  "(\<forall>c. data_class c \<longrightarrow> 0 \<le> Type2_decode_char (py_ord c) \<and> Type2_decode_char (py_ord c) \<le> 63)
   \<and> (\<forall>key g1 g2 g3 g4 g5 self sk.
         match_key key = Some (g1, g2, g3, g4, g5) \<longrightarrow> Type2_parse_sub_key self g5 = Inr sk \<longrightarrow>
         (\<forall>v \<in> set (t_list sk) \<union> set (n_list sk) \<union> set (p_list sk). 0 \<le> v \<and> v \<le> 63))"
  using data_class_decode match_key_data_class parse_sub_key_class by blast

theorem type2_class_decodes_witness:
  "data_class CHR ''_'' \<and> Type2_decode_char (py_ord CHR ''_'') = 63
   \<and> match_key ''=1-1+0-A_-'' = Some (''1'', ''1'', CHR ''+'', ''0'', ''A_-'')
   \<and> Type2_parse_sub_key \<lparr>kt = None, T = 1, j = 1, Dt = 0, Rt = [], Ft = [], Lt = [], Nt = []\<rparr> ''A_-''
       = Inr \<lparr>t_list = [0], n_list = [63], p_list = [62]\<rparr>
   \<and> (0::int) \<le> 62 \<and> (62::int) \<le> 63"
proof -
  have a: "data_class CHR ''_''" by code_simp
  have b: "Type2_decode_char (py_ord CHR ''_'') = 63" by code_simp
  have c: "match_key ''=1-1+0-A_-'' = Some (''1'', ''1'', CHR ''+'', ''0'', ''A_-'')" by code_simp
  have d: "Type2_parse_sub_key \<lparr>kt = None, T = 1, j = 1, Dt = 0, Rt = [], Ft = [], Lt = [], Nt = []\<rparr> ''A_-''
       = Inr \<lparr>t_list = [0], n_list = [63], p_list = [62]\<rparr>" by code_simp
  from type2_class_decodes a have "0 \<le> Type2_decode_char (py_ord CHR ''_'')" by blast
  moreover from type2_class_decodes c d
  have "\<forall>v \<in> set (t_list \<lparr>t_list = [0], n_list = [63], p_list = [62::int]\<rparr>)
           \<union> set (n_list \<lparr>t_list = [0], n_list = [63], p_list = [62::int]\<rparr>)
           \<union> set (p_list \<lparr>t_list = [0], n_list = [63], p_list = [62::int]\<rparr>). 0 \<le> v \<and> v \<le> 63"
    by blast
  then have "(0::int) \<le> 62 \<and> (62::int) \<le> 63" by simp
  ultimately show ?thesis using a b c d by (simp only: simp_thms)
qed

text \<open>
  Claim C3 at a failing input. The keys \<^verbatim>\<open>"=1-1+0-AAB"\<close> (scramble) and
  \<^verbatim>\<open>"=1-1-0-AAB"\<close> (unscramble) match the grammar with \<open>T = j = 1\<close>, and their
  permutation sections decode to 1, which is not below \<open>T * j\<close>: the constructor raises
  IndexError in \<^verbatim>\<open>s_parsed['p'][h_parsed['p'][u]]\<close>. With the unscramble key
  \<^verbatim>\<open>"=1-1-0-AAA"\<close> the constructor returns an engine whose permutation holds the invalid
  index 1, and \<^verbatim>\<open>calculate_coords\<close> then raises IndexError.
\<close>

theorem type2_init_index_error:
  "Type2_init ''=1-1-0-AAB'' ''=1-1+0-AAB'' = Inl IndexError
   \<and> Type2_init ''=1-1-0-AAA'' ''=1-1+0-AAB'' =
       Inr \<lparr>kt = Some [1], T = 1, j = 1, Dt = 0, Rt = [0], Ft = [0], Lt = [0], Nt = [0]\<rparr>
   \<and> Type2_calculate_coords
       \<lparr>kt = Some [1], T = 1, j = 1, Dt = 0, Rt = [0], Ft = [0], Lt = [0], Nt = [0]\<rparr> 10 10
       = Inl IndexError"
  by code_simp

text \<open>
  Claim C6 at a failing input. A line feed is outside the grammar's alphabet, but as the
  last character of a key it is accepted by \<^verbatim>\<open>$\<close>: the engine built from the scramble
  key \<^verbatim>\<open>"=1-1+1-AAA\n"\<close> holds a permutation, and \<^verbatim>\<open>calculate_coords(10, 10)\<close> is not
  the identity rectangle.
\<close>

theorem type2_trailing_newline_accepted:
  "match_key (''=1-1+1-AAA'' @ [CHR 0x0A]) = Some (''1'', ''1'', CHR ''+'', ''1'', ''AAA'')
   \<and> Type2_init ''=1-1-1-AAA'' (''=1-1+1-AAA'' @ [CHR 0x0A]) =
       Inr \<lparr>kt = Some [0], T = 1, j = 1, Dt = 1, Rt = [0], Ft = [0], Lt = [0], Nt = [0]\<rparr>
   \<and> Type2_calculate_coords
       \<lparr>kt = Some [0], T = 1, j = 1, Dt = 1, Rt = [0], Ft = [0], Lt = [0], Nt = [0]\<rparr> 10 10
       = Inr [\<lparr>xsrc = 1, ysrc = 1, width = 8, height = 8, xdest = 0, ydest = 0\<rparr>]"
  by code_simp

section \<open>Type 2: coordinate calculation on a valid permutation\<close>

lemma int_div_mod_bounds:
  fixes x t m :: int
  assumes "0 \<le> x" and "x < t * m" and "0 < t"
  shows "0 \<le> x div t \<and> x div t < m \<and> 0 \<le> x mod t \<and> x mod t < t"
proof -
  have md: "0 \<le> x mod t" "x mod t < t" using assms(3) by simp_all
  have e: "x = t * (x div t) + x mod t" by simp
  have "x div t < m"
  proof (rule ccontr)
    assume "\<not> x div t < m"
    then have "m \<le> x div t" by simp
    then have "t * m \<le> t * (x div t)" using assms(3) by (simp add: mult_left_mono)
    with e md assms(2) show False by linarith
  qed
  moreover have "0 \<le> x div t" using assms(1,3) by (simp add: pos_imp_zdiv_nonneg_iff)
  ultimately show ?thesis using md by simp
qed

lemma Type2_tile_Inr:
  assumes tpos: "0 < T self" and jpos: "0 < j self"
    and tle: "T self \<le> 8" and jle: "j self \<le> 8"
    and lens: "length (Lt self) = nat (j self)" "length (Nt self) = nat (T self)"
      "length (Rt self) = nat (j self)" "length (Ft self) = nat (T self)"
    and klen: "length k = nat (T self * j self)"
    and kval: "\<forall>v \<in> set k. 0 \<le> v \<and> v < T self * j self"
    and n: "n < nat (T self * j self)"
  shows "Type2_tile self k r e s h (int n) = Inr (perm_rect self k r e s h n)"
proof -
  have n': "0 \<le> int n" "int n < T self * j self" using n by simp_all
  from int_div_mod_bounds [OF n' tpos]
  have a: "0 \<le> int n div T self" "int n div T self < j self"
    "0 \<le> int n mod T self" "int n mod T self < T self" by simp_all
  have kn: "k ! n \<in> set k" using n klen by simp
  with kval have kv: "0 \<le> k ! n" "k ! n < T self * j self" by simp_all
  from int_div_mod_bounds [OF kv tpos]
  have b: "0 \<le> k ! n div T self" "k ! n div T self < j self"
    "0 \<le> k ! n mod T self" "k ! n mod T self < T self" by simp_all
  have 1: "py_nth (Lt self) (int n div T self) = Inr (Lt self ! nat (int n div T self))"
    using a lens by (intro py_nth_in_range) simp_all
  have 2: "py_nth (Nt self) (int n mod T self) = Inr (Nt self ! nat (int n mod T self))"
    using a lens by (intro py_nth_in_range) simp_all
  have "int n < int (length k)" using n klen by linarith
  then have 3: "py_nth k (int n) = Inr (k ! n)"
    using py_nth_in_range [of "int n" k] by simp
  have 4: "py_nth (Rt self) (k ! n div T self) = Inr (Rt self ! nat (k ! n div T self))"
    using b lens by (intro py_nth_in_range) simp_all
  have 5: "py_nth (Ft self) (k ! n mod T self) = Inr (Ft self ! nat (k ! n mod T self))"
    using b lens by (intro py_nth_in_range) simp_all
  have "T self * j self \<le> 8 * 8"
    using tpos jpos tle jle by (intro mult_mono) simp_all
  with n' kv have small: "\<bar>int n\<bar> < 2 ^ 52" "\<bar>k ! n\<bar> < 2 ^ 52" by simp_all
  have t52: "T self < 2 ^ 52" using tle by simp
  have 6: "py_floor_truediv (int n) (T self) = Inr (int n div T self)"
    using tpos t52 small(1) by (rule py_floor_truediv_exact)
  have 7: "py_floor_truediv (k ! n) (T self) = Inr (k ! n div T self)"
    using tpos t52 small(2) by (rule py_floor_truediv_exact)
  have 8: "(T self = 0) = False" using tpos by simp
  show ?thesis
    by (simp only: Type2_tile_def perm_rect_def Let_def 1 2 3 4 5 6 7 8 sum.case if_False)
qed

lemma Type2_loop_all_Inr:
  assumes "\<And>x. x \<in> set xs \<Longrightarrow> Type2_tile self k r e s h x = Inr (g x)"
  shows "Type2_loop self k i n r e s h xs = Inr (if i > 0 \<and> n > 0 then map g xs else [])"
  using assms by (induction xs) simp_all

lemma Type2_init_kt_cases:
  assumes "Type2_init key_h key_s = Inr eng" and "kt eng = Some k"
  obtains s1 s2 s4 s5 h5 vT vj vD sp hp where
    "match_key key_s = Some (s1, s2, CHR ''+'', s4, s5)"
    "match_key key_h = Some (s1, s2, CHR ''-'', s4, h5)"
    "py_int s1 = Inr vT" "py_int s2 = Inr vj" "py_int s4 = Inr vD"
    "vT \<le> 8" "vj \<le> 8"
    "Type2_parse_sub_key
       \<lparr>kt = None, T = vT, j = vj, Dt = vD, Rt = [], Ft = [], Lt = [], Nt = []\<rparr> s5 = Inr sp"
    "Type2_parse_sub_key
       \<lparr>kt = None, T = vT, j = vj, Dt = vD, Rt = [], Ft = [], Lt = [], Nt = []\<rparr> h5 = Inr hp"
    "collect (final_index (p_list sp) (p_list hp)) (py_range (vT * vj)) = Inr k"
    "eng = \<lparr>kt = Some k, T = vT, j = vj, Dt = vD, Rt = n_list sp, Ft = t_list sp,
            Lt = n_list hp, Nt = t_list hp\<rparr>"
  using assms unfolding Type2_init_def Type2_parse_keys_def Let_def
  by (auto split: option.splits prod.splits if_splits sum.splits)

lemma py_range_length: "length (py_range n) = nat n"
  by (simp add: py_range_def)

lemma Type2_parse_sub_key_lengths:
  assumes "Type2_parse_sub_key self data_str = Inr sk"
  shows "length (t_list sk) = nat (T self) \<and> length (n_list sk) = nat (j self)
         \<and> length (p_list sk) = nat (T self * j self)"
proof -
  from assms obtain ts ns ps where
    t: "collect (\<lambda>i. decode_at data_str i) (py_range (T self)) = Inr ts"
    and n: "collect (\<lambda>i. decode_at data_str (T self + i)) (py_range (j self)) = Inr ns"
    and p: "collect (\<lambda>i. decode_at data_str (T self + j self + i)) (py_range (T self * j self)) = Inr ps"
    and sk: "sk = \<lparr>t_list = ts, n_list = ns, p_list = ps\<rparr>"
    by (auto simp: Type2_parse_sub_key_def split: sum.splits)
  from collect_Inr [OF t] collect_Inr [OF n] collect_Inr [OF p] sk
  show ?thesis by (simp add: py_range_length)
qed

lemma py_strip_subset: "set (py_strip s) \<subseteq> set s"
proof -
  have "set (dropWhile py_isspace (rev (dropWhile py_isspace s))) \<subseteq> set (dropWhile py_isspace s)"
    using set_dropWhileD [of _ py_isspace "rev (dropWhile py_isspace s)"] by auto
  moreover have "set (dropWhile py_isspace s) \<subseteq> set s"
    using set_dropWhileD [of _ py_isspace s] by auto
  ultimately show ?thesis by (auto simp: py_strip_def)
qed

lemma scan_digits_nonneg: "scan_digits acc us s = Some v \<Longrightarrow> 0 \<le> acc \<Longrightarrow> 0 \<le> v"
  by (induction acc us s rule: scan_digits.induct)
    (auto simp: is_digit_def digit_val_def split: if_splits)

lemma py_int_digits_nonneg:
  assumes "\<forall>c \<in> set s. is_digit c" and "py_int s = Inr v"
  shows "0 \<le> v"
proof -
  let ?b = "py_strip s"
  have d: "\<forall>c \<in> set ?b. is_digit c" using assms(1) py_strip_subset by blast
  have "\<not> is_digit CHR ''-''" "\<not> is_digit CHR ''+''" by (simp_all add: is_digit_def py_ord_def)
  with d have h: "?b \<noteq> [] \<Longrightarrow> hd ?b \<noteq> CHR ''-'' \<and> hd ?b \<noteq> CHR ''+''"
    using hd_in_set by metis
  from assms(2) h obtain w where "scan_digits 0 True ?b = Some w" "v = w"
    by (auto simp: py_int_def Let_def split: if_splits option.splits)
  then show ?thesis using scan_digits_nonneg by force
qed

lemma match_key_digits:
  assumes "match_key key = Some (g1, g2, g3, g4, g5)"
  shows "(\<forall>c \<in> set g1. is_digit c) \<and> (\<forall>c \<in> set g2. is_digit c) \<and> (\<forall>c \<in> set g4. is_digit c)"
  using assms by (auto simp: match_key_def Let_def split: if_splits dest: set_takeWhileD)

lemma Type2_init_kt_shape:
  assumes "Type2_init key_h key_s = Inr eng" and "kt eng = Some k"
  shows "0 \<le> T eng \<and> T eng \<le> 8 \<and> 0 \<le> j eng \<and> j eng \<le> 8 \<and> 0 \<le> Dt eng
       \<and> length k = nat (T eng * j eng)
       \<and> length (Rt eng) = nat (j eng) \<and> length (Lt eng) = nat (j eng)
       \<and> length (Ft eng) = nat (T eng) \<and> length (Nt eng) = nat (T eng)"
proof -
  from assms obtain s1 s2 s4 s5 h5 vT vj vD sp hp where
    ms: "match_key key_s = Some (s1, s2, CHR ''+'', s4, s5)"
    and i1: "py_int s1 = Inr vT" and i2: "py_int s2 = Inr vj" and i4: "py_int s4 = Inr vD"
    and le: "vT \<le> 8" "vj \<le> 8"
    and sp: "Type2_parse_sub_key
       \<lparr>kt = None, T = vT, j = vj, Dt = vD, Rt = [], Ft = [], Lt = [], Nt = []\<rparr> s5 = Inr sp"
    and hp: "Type2_parse_sub_key
       \<lparr>kt = None, T = vT, j = vj, Dt = vD, Rt = [], Ft = [], Lt = [], Nt = []\<rparr> h5 = Inr hp"
    and c: "collect (final_index (p_list sp) (p_list hp)) (py_range (vT * vj)) = Inr k"
    and eng: "eng = \<lparr>kt = Some k, T = vT, j = vj, Dt = vD, Rt = n_list sp, Ft = t_list sp,
            Lt = n_list hp, Nt = t_list hp\<rparr>"
    by (rule Type2_init_kt_cases)
  from match_key_digits [OF ms] i1 i2 i4
  have nn: "0 \<le> vT" "0 \<le> vj" "0 \<le> vD" by (auto intro: py_int_digits_nonneg)
  from Type2_parse_sub_key_lengths [OF sp] Type2_parse_sub_key_lengths [OF hp]
    collect_Inr [OF c] nn le eng
  show ?thesis by (simp add: py_range_length)
qed

lemma Type2_calculate_coords_valid:
  assumes init: "Type2_init key_h key_s = Inr eng" and kt: "kt eng = Some k" and ne: "k \<noteq> []"
    and kval: "\<forall>v \<in> set k. 0 \<le> v \<and> v < T eng * j eng"
    and iw: "\<bar>image_width - 2 * T eng * Dt eng\<bar> < 2 ^ 51"
    and ih: "\<bar>image_height - 2 * j eng * Dt eng\<bar> < 2 ^ 51"
  shows "1 \<le> T eng \<and> 1 \<le> j eng \<and> length k = nat (T eng * j eng)
     \<and> Type2_calculate_coords eng image_width image_height =
       Inr (if 0 < image_width - 2 * T eng * Dt eng \<and> 0 < image_height - 2 * j eng * Dt eng
            then map (perm_rect eng k
                       ((image_width - 2 * T eng * Dt eng + T eng - 1) div T eng)
                       (image_width - 2 * T eng * Dt eng
                          - (T eng - 1) * ((image_width - 2 * T eng * Dt eng + T eng - 1) div T eng))
                       ((image_height - 2 * j eng * Dt eng + j eng - 1) div j eng)
                       (image_height - 2 * j eng * Dt eng
                          - (j eng - 1) * ((image_height - 2 * j eng * Dt eng + j eng - 1) div j eng)))
                   [0..<nat (T eng * j eng)]
            else [])"
proof -
  from Type2_init_kt_shape [OF init kt]
  have sh: "0 \<le> T eng" "0 \<le> j eng" "length k = nat (T eng * j eng)"
    "length (Rt eng) = nat (j eng)" "length (Lt eng) = nat (j eng)"
    "length (Ft eng) = nat (T eng)" "length (Nt eng) = nat (T eng)"
    and le8: "T eng \<le> 8" "j eng \<le> 8" by simp_all
  from ne sh(3) have "0 < T eng * j eng" by (cases "0 < T eng * j eng") simp_all
  with sh(1,2) have pos: "0 < T eng" "0 < j eng"
    by (simp_all add: zero_less_mult_iff)
  let ?i = "image_width - 2 * T eng * Dt eng"
  let ?n = "image_height - 2 * j eng * Dt eng"
  let ?r = "(?i + T eng - 1) div T eng"
  let ?e = "?i - (T eng - 1) * ?r"
  let ?s = "(?n + j eng - 1) div j eng"
  let ?h = "?n - (j eng - 1) * ?s"
  have tiles: "Type2_tile eng k ?r ?e ?s ?h x = Inr ((perm_rect eng k ?r ?e ?s ?h \<circ> nat) x)"
    if "x \<in> set (py_range (T eng * j eng))" for x
  proof -
    from that obtain m where m: "x = int m" "m < nat (T eng * j eng)"
      by (auto simp: py_range_def)
    from Type2_tile_Inr [OF pos le8 sh(5) sh(7) sh(4) sh(6) sh(3) kval m(2)] m(1)
    show ?thesis by simp
  qed
  have loop: "Type2_loop eng k ?i ?n ?r ?e ?s ?h (py_range (T eng * j eng)) =
      Inr (if ?i > 0 \<and> ?n > 0
           then map (perm_rect eng k ?r ?e ?s ?h \<circ> nat) (py_range (T eng * j eng)) else [])"
    using tiles by (rule Type2_loop_all_Inr)
  have mp: "map (perm_rect eng k ?r ?e ?s ?h \<circ> nat) (py_range (T eng * j eng))
      = map (perm_rect eng k ?r ?e ?s ?h) [0..<nat (T eng * j eng)]"
    by (simp add: py_range_def o_def)
  have "\<bar>?i + T eng - 1\<bar> < 2 ^ 52" using iw pos(1) le8(1) by simp
  with pos(1) le8(1) have fr: "py_floor_truediv (?i + T eng - 1) (T eng) = Inr ?r"
    by (intro py_floor_truediv_exact) simp_all
  have "\<bar>?n + j eng - 1\<bar> < 2 ^ 52" using ih pos(2) le8(2) by simp
  with pos(2) le8(2) have fs: "py_floor_truediv (?n + j eng - 1) (j eng) = Inr ?s"
    by (intro py_floor_truediv_exact) simp_all
  have nk: "(Some k = None \<or> Some k = Some []) = False" using ne by simp
  have "Type2_calculate_coords eng image_width image_height =
      Type2_loop eng k ?i ?n ?r ?e ?s ?h (py_range (T eng * j eng))"
    by (simp only: Type2_calculate_coords_def Let_def kt nk if_False fr fs sum.case option.sel)
  with loop mp pos sh(3) show ?thesis by (simp only: simp_thms) simp
qed

text \<open>
  Claim C4, as stated, fails when \<open>T * j = 0\<close>: the keys \<^verbatim>\<open>"=0-1+0-A"\<close> and
  \<^verbatim>\<open>"=0-1-0-A"\<close> parse, the permutation is built (empty, so every value of it is a valid
  index), \<open>i = 10\<close> and \<open>n = 10\<close> are positive, and \<^verbatim>\<open>calculate_coords(10, 10)\<close> returns
  the identity rectangle, one rectangle and not \<open>T * j = 0\<close>: \<^verbatim>\<open>not self.kt\<close> holds for
  the empty list.
\<close>

theorem type2_empty_permutation_counterexample:
  "Type2_init ''=0-1-0-A'' ''=0-1+0-A'' =
     Inr \<lparr>kt = Some [], T = 0, j = 1, Dt = 0, Rt = [0], Ft = [], Lt = [0], Nt = []\<rparr>
   \<and> Type2_calculate_coords
       \<lparr>kt = Some [], T = 0, j = 1, Dt = 0, Rt = [0], Ft = [], Lt = [0], Nt = []\<rparr> 10 10
     = Inr [\<lparr>xsrc = 0, ysrc = 0, width = 10, height = 10, xdest = 0, ydest = 0\<rparr>]"
  by code_simp

text \<open>
  Claim C4, amended: for a constructed engine whose permutation \<open>k\<close> is not empty and has
  every value in \<open>[0, T * j)\<close>, and dimensions with \<open>0 < i < 2^51\<close> and
  \<open>0 < n < 2^51\<close>, \<^verbatim>\<open>calculate_coords\<close> raises nothing and returns exactly one
  rectangle per flat index \<open>o\<close> from 0 to \<open>T * j - 1\<close>, in that order, each with the
  source origin, destination origin and size of the claim, and nothing else. (Beyond the
  precision of a float the base sizes are not those of the claim, see
  \<open>type2_float_division_example\<close> below.)
\<close>

theorem type2_calculate_coords_formula:
  assumes "Type2_init key_h key_s = Inr eng" and "kt eng = Some k" and "k \<noteq> []"
    and "\<forall>v \<in> set k. 0 \<le> v \<and> v < T eng * j eng"
    and "0 < image_width - 2 * T eng * Dt eng" and "image_width - 2 * T eng * Dt eng < 2 ^ 51"
    and "0 < image_height - 2 * j eng * Dt eng" and "image_height - 2 * j eng * Dt eng < 2 ^ 51"
  shows "Type2_calculate_coords eng image_width image_height =
     (let i = image_width - 2 * T eng * Dt eng;
          n = image_height - 2 * j eng * Dt eng;
          r = (i + T eng - 1) div T eng;
          e = i - (T eng - 1) * r;
          s = (n + j eng - 1) div j eng;
          h = n - (j eng - 1) * s
      in Inr (map (\<lambda>o'. let col = int o' mod T eng; row = int o' div T eng;
                          dcol = k ! o' mod T eng; drow = k ! o' div T eng
                      in \<lparr>xsrc = Dt eng + col * (r + 2 * Dt eng)
                                  + (if Lt eng ! nat row < col then e - r else 0),
                          ysrc = Dt eng + row * (s + 2 * Dt eng)
                                  + (if Nt eng ! nat col < row then h - s else 0),
                          width = (if Lt eng ! nat row = col then e else r),
                          height = (if Nt eng ! nat col = row then h else s),
                          xdest = dcol * r + (if Rt eng ! nat drow < dcol then e - r else 0),
                          ydest = drow * s + (if Ft eng ! nat dcol < drow then h - s else 0)\<rparr>)
                [0..<nat (T eng * j eng)]))"
proof -
  have pr: "perm_rect eng k r e s h =
      (\<lambda>o'. let col = int o' mod T eng; row = int o' div T eng;
                 dcol = k ! o' mod T eng; drow = k ! o' div T eng
             in \<lparr>xsrc = Dt eng + col * (r + 2 * Dt eng)
                         + (if Lt eng ! nat row < col then e - r else 0),
                 ysrc = Dt eng + row * (s + 2 * Dt eng)
                         + (if Nt eng ! nat col < row then h - s else 0),
                 width = (if Lt eng ! nat row = col then e else r),
                 height = (if Nt eng ! nat col = row then h else s),
                 xdest = dcol * r + (if Rt eng ! nat drow < dcol then e - r else 0),
                 ydest = drow * s + (if Ft eng ! nat dcol < drow then h - s else 0)\<rparr>)"
    for r e s h
    by (rule ext) (simp only: perm_rect_def Let_def)
  have b: "\<bar>image_width - 2 * T eng * Dt eng\<bar> < 2 ^ 51"
    "\<bar>image_height - 2 * j eng * Dt eng\<bar> < 2 ^ 51"
    using assms(5-8) by simp_all
  from Type2_calculate_coords_valid [OF assms(1-4) b] assms(5,7)
  show ?thesis
    by (simp only: pr Let_def simp_thms if_True)
qed

theorem type2_calculate_coords_formula_witness:
  "Type2_init ''=2-2-1-AAAAABCD'' ''=2-2+1-ABBADCBA'' = Inr 
       \<lparr>kt = Some [3, 2, 1, 0], T = 2, j = 2, Dt = 1, Rt = [1, 0], Ft = [0, 1],
          Lt = [0, 0], Nt = [0, 0]\<rparr>
   \<and> Type2_calculate_coords 
       \<lparr>kt = Some [3, 2, 1, 0], T = 2, j = 2, Dt = 1, Rt = [1, 0], Ft = [0, 1],
          Lt = [0, 0], Nt = [0, 0]\<rparr> 105 207 =
     Inr [\<lparr>xsrc = 1, ysrc = 1, width = 50, height = 101, xdest = 50, ydest = 102\<rparr>,
          \<lparr>xsrc = 53, ysrc = 1, width = 51, height = 101, xdest = 0, ydest = 101\<rparr>,
          \<lparr>xsrc = 1, ysrc = 104, width = 50, height = 102, xdest = 51, ydest = 0\<rparr>,
          \<lparr>xsrc = 53, ysrc = 104, width = 51, height = 102, xdest = 0, ydest = 0\<rparr>]"
proof -
  have h: "Type2_init ''=2-2-1-AAAAABCD'' ''=2-2+1-ABBADCBA'' = Inr 
       \<lparr>kt = Some [3, 2, 1, 0], T = 2, j = 2, Dt = 1, Rt = [1, 0], Ft = [0, 1],
          Lt = [0, 0], Nt = [0, 0]\<rparr>"
    by code_simp
  have k: "kt 
       \<lparr>kt = Some [3, 2, 1, 0], T = 2, j = 2, Dt = 1, Rt = [1, 0], Ft = [0, 1],
          Lt = [0, 0], Nt = [0, 0]\<rparr> = Some [3, 2, 1, 0]" by simp
  have v: "\<forall>v \<in> set [3, 2, 1, 0]. 0 \<le> v \<and> v < T 
       \<lparr>kt = Some [3, 2, 1, 0], T = 2, j = 2, Dt = 1, Rt = [1, 0], Ft = [0, 1],
          Lt = [0, 0], Nt = [0, 0]\<rparr> * j 
       \<lparr>kt = Some [3, 2, 1, 0], T = 2, j = 2, Dt = 1, Rt = [1, 0], Ft = [0, 1],
          Lt = [0, 0], Nt = [0, 0]\<rparr>" by simp
  have "Type2_calculate_coords 
       \<lparr>kt = Some [3, 2, 1, 0], T = 2, j = 2, Dt = 1, Rt = [1, 0], Ft = [0, 1],
          Lt = [0, 0], Nt = [0, 0]\<rparr> 105 207 =
     Inr [\<lparr>xsrc = 1, ysrc = 1, width = 50, height = 101, xdest = 50, ydest = 102\<rparr>,
          \<lparr>xsrc = 53, ysrc = 1, width = 51, height = 101, xdest = 0, ydest = 101\<rparr>,
          \<lparr>xsrc = 1, ysrc = 104, width = 50, height = 102, xdest = 51, ydest = 0\<rparr>,
          \<lparr>xsrc = 53, ysrc = 104, width = 51, height = 102, xdest = 0, ydest = 0\<rparr>]"
    using type2_calculate_coords_formula [OF h k _ v, of 105 207]
    by (simp add: Let_def upt_conv_Cons)
  with h show ?thesis by (simp only: simp_thms)
qed

text \<open>
  Claim C9, as stated, fails when \<open>T * j = 0\<close>: the keys \<^verbatim>\<open>"=1-0+0-A"\<close> and
  \<^verbatim>\<open>"=1-0-0-A"\<close> parse and the (empty) permutation is built; for height 0, \<open>n = 0\<close>, and
  \<^verbatim>\<open>calculate_coords(10, 0)\<close> returns the identity rectangle, not the empty list.
\<close>

theorem type2_degenerate_counterexample:
  "Type2_init ''=1-0-0-A'' ''=1-0+0-A'' =
     Inr \<lparr>kt = Some [], T = 1, j = 0, Dt = 0, Rt = [], Ft = [0], Lt = [], Nt = [0]\<rparr>
   \<and> Type2_calculate_coords
       \<lparr>kt = Some [], T = 1, j = 0, Dt = 0, Rt = [], Ft = [0], Lt = [], Nt = [0]\<rparr> 10 0
     = Inr [\<lparr>xsrc = 0, ysrc = 0, width = 10, height = 0, xdest = 0, ydest = 0\<rparr>]"
  by code_simp

text \<open>
  Claim C9, amended: for a constructed engine whose permutation is not empty and has
  every value in \<open>[0, T * j)\<close>, and dimensions with \<open>i \<le> 0\<close> or \<open>n \<le> 0\<close>, both
  below \<open>2^51\<close> in magnitude, \<^verbatim>\<open>calculate_coords\<close> returns the empty list and raises
  nothing. (The two divisions come before the guard: for a larger \<open>i\<close> or \<open>n\<close> they can
  raise OverflowError, see \<open>type2_float_division_example\<close> below.)
\<close>

theorem type2_degenerate_dimensions_empty:
  assumes "Type2_init key_h key_s = Inr eng" and "kt eng = Some k" and "k \<noteq> []"
    and "\<forall>v \<in> set k. 0 \<le> v \<and> v < T eng * j eng"
    and "image_width - 2 * T eng * Dt eng \<le> 0 \<or> image_height - 2 * j eng * Dt eng \<le> 0"
    and "\<bar>image_width - 2 * T eng * Dt eng\<bar> < 2 ^ 51"
    and "\<bar>image_height - 2 * j eng * Dt eng\<bar> < 2 ^ 51"
  shows "Type2_calculate_coords eng image_width image_height = Inr []"
proof -
  from assms(5)
  have "\<not> (0 < image_width - 2 * T eng * Dt eng \<and> 0 < image_height - 2 * j eng * Dt eng)"
    by linarith
  with Type2_calculate_coords_valid [OF assms(1-4) assms(6,7)]
  show ?thesis by (simp only: if_False simp_thms)
qed

theorem type2_degenerate_dimensions_empty_witness:
  "Type2_init ''=2-2-1-AAAAABCD'' ''=2-2+1-ABBADCBA'' = Inr 
       \<lparr>kt = Some [3, 2, 1, 0], T = 2, j = 2, Dt = 1, Rt = [1, 0], Ft = [0, 1],
          Lt = [0, 0], Nt = [0, 0]\<rparr>
   \<and> Type2_calculate_coords 
       \<lparr>kt = Some [3, 2, 1, 0], T = 2, j = 2, Dt = 1, Rt = [1, 0], Ft = [0, 1],
          Lt = [0, 0], Nt = [0, 0]\<rparr> 4 207 = Inr []
   \<and> Type2_calculate_coords 
       \<lparr>kt = Some [3, 2, 1, 0], T = 2, j = 2, Dt = 1, Rt = [1, 0], Ft = [0, 1],
          Lt = [0, 0], Nt = [0, 0]\<rparr> 105 3 = Inr []"
proof -
  have h: "Type2_init ''=2-2-1-AAAAABCD'' ''=2-2+1-ABBADCBA'' = Inr 
       \<lparr>kt = Some [3, 2, 1, 0], T = 2, j = 2, Dt = 1, Rt = [1, 0], Ft = [0, 1],
          Lt = [0, 0], Nt = [0, 0]\<rparr>"
    by code_simp
  have k: "kt 
       \<lparr>kt = Some [3, 2, 1, 0], T = 2, j = 2, Dt = 1, Rt = [1, 0], Ft = [0, 1],
          Lt = [0, 0], Nt = [0, 0]\<rparr> = Some [3, 2, 1, 0]" by simp
  have v: "\<forall>v \<in> set [3, 2, 1, 0]. 0 \<le> v \<and> v < T 
       \<lparr>kt = Some [3, 2, 1, 0], T = 2, j = 2, Dt = 1, Rt = [1, 0], Ft = [0, 1],
          Lt = [0, 0], Nt = [0, 0]\<rparr> * j 
       \<lparr>kt = Some [3, 2, 1, 0], T = 2, j = 2, Dt = 1, Rt = [1, 0], Ft = [0, 1],
          Lt = [0, 0], Nt = [0, 0]\<rparr>" by simp
  have "Type2_calculate_coords 
       \<lparr>kt = Some [3, 2, 1, 0], T = 2, j = 2, Dt = 1, Rt = [1, 0], Ft = [0, 1],
          Lt = [0, 0], Nt = [0, 0]\<rparr> 4 207 = Inr []"
    using type2_degenerate_dimensions_empty [OF h k _ v, of 4 207] by simp
  moreover have "Type2_calculate_coords 
       \<lparr>kt = Some [3, 2, 1, 0], T = 2, j = 2, Dt = 1, Rt = [1, 0], Ft = [0, 1],
          Lt = [0, 0], Nt = [0, 0]\<rparr> 105 3 = Inr []"
    using type2_degenerate_dimensions_empty [OF h k _ v, of 105 3] by simp
  ultimately show ?thesis using h by (simp only: simp_thms)
qed

text \<open>
  The bounds of the amended claims C4 and C9 are needed. The keys \<^verbatim>\<open>"=1-1+0-AAA"\<close> and
  \<^verbatim>\<open>"=1-1-0-ABA"\<close> give a valid engine with \<open>T = j = 1\<close> and \<open>D = 0\<close>; for the width
  \<open>2^53 + 1\<close>, \<open>i = 2^53 + 1\<close> and \<^verbatim>\<open>math.floor((i + T - 1) / T)\<close> is \<open>2^53\<close>, the
  width of the rectangle returned, and not \<open>i\<close>. For the engine of the keys
  \<^verbatim>\<open>"=2-2+1-ABBADCBA"\<close> and \<^verbatim>\<open>"=2-2-1-AAAAABCD"\<close>, the width \<open>2^1027\<close> and the height 3,
  \<open>n = - 1\<close> is not positive and the division for \<open>r\<close> raises OverflowError.
\<close>

lemma type2_float_division_example:
  "Type2_init ''=1-1-0-ABA'' ''=1-1+0-AAA'' =
     Inr \<lparr>kt = Some [0], T = 1, j = 1, Dt = 0, Rt = [0], Ft = [0], Lt = [1], Nt = [0]\<rparr>
   \<and> Type2_calculate_coords
       \<lparr>kt = Some [0], T = 1, j = 1, Dt = 0, Rt = [0], Ft = [0], Lt = [1], Nt = [0]\<rparr>
       9007199254740993 1
     = Inr [\<lparr>xsrc = 0, ysrc = 0, width = 9007199254740992, height = 1,
              xdest = 0, ydest = 0\<rparr>]
   \<and> Type2_calculate_coords
       \<lparr>kt = Some [3, 2, 1, 0], T = 2, j = 2, Dt = 1, Rt = [1, 0], Ft = [0, 1],
          Lt = [0, 0], Nt = [0, 0]\<rparr> (2 ^ 1027) 3
     = Inl OverflowError"
  by code_simp

section \<open>Type 1: coverage of the image\<close>

lemma cover_count_append:
  "cover_count (xs @ ys) px py = cover_count xs px py + cover_count ys px py"
  by (simp add: cover_count_def)

lemma cover_count_single:
  "cover_count [q] px py = (if in_dest q px py then 1 else 0)"
  by (simp add: cover_count_def)

lemma cover_count_Nil: "cover_count [] px py = 0"
  by (simp add: cover_count_def)

lemma base_exact_bounds:
  assumes "8 \<le> len"
  shows "0 \<le> base_exact len \<and> 1 \<le> rem_exact len
         \<and> 7 * base_exact len + rem_exact len = len - len mod 8"
proof -
  let ?n = "len - len mod 8"
  let ?q = "(?n - 1) div 7"
  have "?n = 8 * (len div 8)" by (simp add: minus_mod_eq_mult_div)
  moreover have "1 \<le> len div 8" using zdiv_mono1 [of 8 len 8] assms by simp
  ultimately have n8: "8 \<le> ?n" by linarith
  have q1: "1 \<le> ?q" using zdiv_mono1 [of 7 "?n - 1" 7] n8 by simp
  have qm: "0 \<le> ?q mod 8" "?q mod 8 \<le> ?q"
    using q1 by (simp_all add: zmod_le_nonneg_dividend)
  have "7 * ?q + (?n - 1) mod 7 = ?n - 1" by (rule mult_div_mod_eq)
  moreover have "0 \<le> (?n - 1) mod 7" by simp
  ultimately have q7: "7 * ?q \<le> ?n - 1" by linarith
  have r: "base_exact len = ?q - ?q mod 8" by (simp add: base_exact_def Let_def)
  have e: "rem_exact len = ?n - 7 * base_exact len" by (simp add: rem_exact_def Let_def)
  from r e qm q7 show ?thesis by linarith
qed

lemma tiled_extent_bounds:
  assumes "8 \<le> len" and "1 \<le> nd" and "nd \<le> 8"
  shows "1 \<le> base_exact len * (nd - 1) + rem_exact len
         \<and> base_exact len * (nd - 1) + rem_exact len \<le> len"
proof -
  from base_exact_bounds [OF assms(1)]
  have b: "0 \<le> base_exact len" "1 \<le> rem_exact len"
    "7 * base_exact len + rem_exact len = len - len mod 8" by simp_all
  have "0 \<le> base_exact len * (nd - 1)" using b(1) assms(2) by simp
  moreover have "base_exact len * (nd - 1) \<le> base_exact len * 7"
    using b(1) assms(3) by (intro mult_left_mono) simp_all
  moreover have "0 \<le> len mod 8" by simp
  ultimately show ?thesis using b by linarith
qed

lemma strips_complete_partition:
  assumes tiles: "partitions tiles l v"
    and l: "0 \<le> l" "l \<le> w" and v: "0 \<le> v" "v \<le> h"
  shows "partitions
     (tiles
      @ (if l < w then [\<lparr>xsrc = l, ysrc = 0, width = w - l, height = v, xdest = l, ydest = 0\<rparr>]
         else [])
      @ (if v < h then [\<lparr>xsrc = 0, ysrc = v, width = w, height = h - v, xdest = 0, ydest = v\<rparr>]
         else [])) w h"
proof -
  have t: "cover_count tiles px py = (if 0 \<le> px \<and> px < l \<and> 0 \<le> py \<and> py < v then 1 else 0)"
    for px py
    using tiles by (simp add: partitions_def)
  show ?thesis
    unfolding partitions_def cover_count_append t
    using l v by (auto simp: cover_count_single cover_count_Nil in_dest_def)
qed

section \<open>Type 1: keys laid out as a grid\<close>

text \<open>
  The tile rectangles of a key whose unscramble map is a grid layout partition the tiled
  region \<open>[0, L) \<times> [0, V)\<close>, for all non-negative base sizes, and the two remainder
  rectangles complete a partition of the tiled region to a partition of the image.
  Conversely, if the returned list partitions the image, its tile rectangles partition
  the tiled region.
\<close>

lemma layout_count:
  "\<forall>l \<in> set ls. 0 \<le> l \<Longrightarrow>
   length (filter (in_seg px) (layout s ls)) = (if s \<le> px \<and> px < s + sum_list ls then 1 else 0)"
proof (induction ls arbitrary: s)
  case Nil
  then show ?case by simp
next
  case (Cons l ls)
  then have "0 \<le> l" "0 \<le> sum_list ls" by (simp_all add: sum_list_nonneg)
  with Cons.IH [of "s + l"] Cons.prems show ?case
    by (auto simp: in_seg_def)
qed

lemma layout_append:
  "layout s (xs @ ys) = layout s xs @ layout (s + sum_list xs) ys"
  by (induction xs arbitrary: s) (simp_all add: add.assoc)

lemma layout_replicate:
  "layout s (replicate n r) = map (\<lambda>i. (s + int i * r, r)) [0..<n]"
proof (induction n arbitrary: s)
  case 0
  then show ?case by simp
next
  case (Suc n)
  have "map (\<lambda>i. (s + int i * r, r)) [0..<Suc n]
        = (s, r) # map (\<lambda>i. (s + int (Suc i) * r, r)) [0..<n]"
    by (simp add: upt_conv_Cons map_Suc_upt [symmetric] del: upt_Suc)
  also have "\<dots> = (s, r) # map (\<lambda>i. (s + r + int i * r, r)) [0..<n]"
    by (simp add: algebra_simps)
  finally show ?case using Suc.IH [of "s + r"] by simp
qed

lemma grid_cols_layout:
  assumes "p < nd"
  shows "map (pixel_seg r e) (grid_cols p nd)
         = layout 0 (replicate p r @ [e] @ replicate (nd - Suc p) r)"
proof -
  have a: "map (pixel_seg r e) (map (\<lambda>i. (2 * int i, 2)) [0..<p])
           = map (\<lambda>i. (0 + int i * r, r)) [0..<p]"
    by (simp add: pixel_seg_def)
  have b: "pixel_seg r e (2 * int p, 1) = (int p * r, e)"
    by (simp add: pixel_seg_def)
  have u: "[Suc p..<nd] = map (\<lambda>k. k + Suc p) [0..<nd - Suc p]"
    by (rule nth_equalityI) (use assms in auto)
  have d: "pixel_seg r e (2 * int (k + Suc p) - 1, 2) = (int p * r + e + int k * r, r)" for k
  proof -
    have "(2 * int (k + Suc p) - 1) div 2 = int k + int p"
      "(2 * int (k + Suc p) - 1) mod 2 = 1"
      by presburger+
    then show ?thesis
      unfolding pixel_seg_def fst_conv snd_conv by (simp add: algebra_simps)
  qed
  have c: "map (pixel_seg r e) (map (\<lambda>i. (2 * int i - 1, 2)) [Suc p..<nd])
           = map (\<lambda>k. (int p * r + e + int k * r, r)) [0..<nd - Suc p]"
    unfolding u map_map o_def by (simp only: d)
  show ?thesis
    unfolding grid_cols_def map_append layout_append layout_replicate a c
    by (simp add: b sum_list_replicate)
qed

lemma grid_cols_count:
  assumes "p < nd" and "0 \<le> r" and "0 \<le> e"
  shows "length (filter (\<lambda>xw. in_seg px (pixel_seg r e xw)) (grid_cols p nd))
         = (if 0 \<le> px \<and> px < r * (int nd - 1) + e then 1 else 0)"
proof -
  have "length (filter (\<lambda>xw. in_seg px (pixel_seg r e xw)) (grid_cols p nd))
        = length (filter (in_seg px) (map (pixel_seg r e) (grid_cols p nd)))"
    by (simp add: filter_map o_def)
  also have "\<dots> = (if 0 \<le> px \<and> px < 0 + sum_list (replicate p r @ [e] @ replicate (nd - Suc p) r)
                    then 1 else 0)"
    unfolding grid_cols_layout [OF assms(1)]
    using assms(2,3) by (intro layout_count) auto
  also have "sum_list (replicate p r @ [e] @ replicate (nd - Suc p) r) = r * (int nd - 1) + e"
  proof -
    have "int p + int (nd - Suc p) = int nd - 1" using assms(1) by linarith
    then have "int p * r + int (nd - Suc p) * r = r * (int nd - 1)"
      by (metis distrib_right mult.commute)
    then show ?thesis by (simp add: sum_list_replicate)
  qed
  finally show ?thesis by simp
qed

lemma product_count:
  "length (filter (\<lambda>c. P (fst c, fst (snd (snd c))) \<and> Q (fst (snd c), snd (snd (snd c))))
      (concat (map (\<lambda>xw. map (\<lambda>yh. (fst xw, fst yh, snd xw, snd yh)) ys) xs)))
   = length (filter P xs) * length (filter Q ys)"
proof (induction xs)
  case Nil
  then show ?case by simp
next
  case (Cons a xs)
  have "length (filter (\<lambda>c. P (fst c, fst (snd (snd c))) \<and> Q (fst (snd c), snd (snd (snd c))))
          (map (\<lambda>yh. (fst a, fst yh, snd a, snd yh)) ys))
        = (if P a then length (filter Q ys) else 0)"
    by (simp add: filter_map o_def)
  with Cons show ?case by simp
qed

lemma piece_at_size:
  "piece_w (piece_at nx ny d1 i) = piece_w (piece_at nx ny d2 i)
   \<and> piece_h (piece_at nx ny d1 i) = piece_h (piece_at nx ny d2 i)"
  by (simp add: piece_at_def Let_def)

lemma Type1_init_sizes:
  assumes "Type1_init key_h key_s = Inr eng" and "i < length (piece (Tt eng))"
  shows "piece_w (piece (Tt eng) ! i) = piece_w (piece (Pt eng) ! i)
         \<and> piece_h (piece (Tt eng) ! i) = piece_h (piece (Pt eng) ! i)"
proof -
  from Type1_init_Inr [OF assms(1)]
  have ps: "Type1_parse_key key_s = Inr (Some (Tt eng))"
    and ph: "Type1_parse_key key_h = Inr (Some (Pt eng))"
    and eq: "ndx (Tt eng) = ndx (Pt eng)" "ndy (Tt eng) = ndy (Pt eng)"
    by simp_all
  from Type1_parse_key_Some [OF ps] obtain ds where
    s: "piece (Tt eng) = map (piece_at (ndx (Tt eng)) (ndy (Tt eng)) ds)
          [0..<nat (ndx (Tt eng) * ndy (Tt eng))]" by blast
  from Type1_parse_key_Some [OF ph] obtain dh where
    h: "piece (Pt eng) = map (piece_at (ndx (Pt eng)) (ndy (Pt eng)) dh)
          [0..<nat (ndx (Pt eng) * ndy (Pt eng))]" by blast
  have i: "i < nat (ndx (Tt eng) * ndy (Tt eng))" using assms(2) s by (metis length_map length_upt minus_nat.diff_0)
  have "piece (Tt eng) ! i = piece_at (ndx (Tt eng)) (ndy (Tt eng)) ds i"
    using i by (subst s) simp
  moreover have "piece (Pt eng) ! i = piece_at (ndx (Tt eng)) (ndy (Tt eng)) dh i"
    using i eq by (subst h) simp
  ultimately show ?thesis using piece_at_size by simp
qed

lemma in_dest_tile_rect:
  "in_dest (tile_rect_exact r e h u f c) px py \<longleftrightarrow>
     in_seg px (pixel_seg r e (piece_x c, piece_w f)) \<and> in_seg py (pixel_seg h u (piece_y c, piece_h f))"
  by (simp add: in_dest_def tile_rect_exact_def in_seg_def pixel_seg_def)

lemma count_by_mset:
  assumes "mset xs = mset ys"
  shows "length (filter P xs) = length (filter P ys)"
proof -
  have "length (filter P zs) = size (filter_mset P (mset zs))" for zs
    by (metis mset_filter size_mset)
  with assms show ?thesis by simp
qed

lemma grid_tiles_partition:
  assumes init: "Type1_init key_h key_s = Inr eng"
    and grid: "grid_layout (Pt eng) p q"
    and nonneg: "0 \<le> r" "0 \<le> e" "0 \<le> h" "0 \<le> u"
  shows "partitions (map2 (tile_rect_exact r e h u) (piece (Tt eng)) (piece (Pt eng)))
           (r * (ndx (Tt eng) - 1) + e) (h * (ndy (Tt eng) - 1) + u)"
proof -
  let ?fs = "piece (Tt eng)" and ?cs = "piece (Pt eng)"
  from Type1_init_Inr [OF init]
  have ps: "Type1_parse_key key_s = Inr (Some (Tt eng))"
    and ph: "Type1_parse_key key_h = Inr (Some (Pt eng))"
    and eq: "ndx (Tt eng) = ndx (Pt eng)" "ndy (Tt eng) = ndy (Pt eng)"
    by simp_all
  have len: "length ?fs = length ?cs"
    using Type1_parse_key_length [OF ps] Type1_parse_key_length [OF ph] eq by simp
  from grid have p: "p < nat (ndx (Pt eng))" and q: "q < nat (ndy (Pt eng))"
    and ms: "mset (map tile_quad ?cs) = mset (grid_cells p q (nat (ndx (Pt eng))) (nat (ndy (Pt eng))))"
    by (simp_all add: grid_layout_def)
  have nx: "int (nat (ndx (Pt eng))) = ndx (Tt eng)" and ny: "int (nat (ndy (Pt eng))) = ndy (Tt eng)"
    using p q eq by simp_all
  show ?thesis
    unfolding partitions_def
  proof (intro allI)
    fix px py
    let ?P = "\<lambda>xw. in_seg px (pixel_seg r e xw)" and ?Q = "\<lambda>yh. in_seg py (pixel_seg h u yh)"
    let ?D = "\<lambda>c. ?P (fst c, fst (snd (snd c))) \<and> ?Q (fst (snd c), snd (snd (snd c)))"
    have "cover_count (map2 (tile_rect_exact r e h u) ?fs ?cs) px py
          = length (filter (\<lambda>i. in_dest (tile_rect_exact r e h u (?fs ! i) (?cs ! i)) px py) [0..<length ?fs])"
      unfolding cover_count_def map2_by_index [OF len] by (simp add: filter_map o_def)
    also have "\<dots> = length (filter (\<lambda>i. ?D (tile_quad (?cs ! i))) [0..<length ?fs])"
    proof -
      have "in_dest (tile_rect_exact r e h u (?fs ! i) (?cs ! i)) px py = ?D (tile_quad (?cs ! i))"
        if "i \<in> set [0..<length ?fs]" for i
      proof -
        from that have "i < length ?fs" by simp
        from Type1_init_sizes [OF init this] show ?thesis
          by (simp add: in_dest_tile_rect tile_quad_def)
      qed
      then show ?thesis by (metis (mono_tags, lifting) filter_cong)
    qed
    also have "\<dots> = length (filter ?D (map tile_quad ?cs))"
    proof -
      have "map tile_quad ?cs = map (\<lambda>i. tile_quad (?cs ! i)) [0..<length ?fs]"
        unfolding len by (rule nth_equalityI) simp_all
      then show ?thesis by (simp add: filter_map o_def)
    qed
    also have "\<dots> = length (filter ?D (grid_cells p q (nat (ndx (Pt eng))) (nat (ndy (Pt eng)))))"
      using ms by (rule count_by_mset)
    also have "\<dots> = length (filter ?P (grid_cols p (nat (ndx (Pt eng)))))
                     * length (filter ?Q (grid_cols q (nat (ndy (Pt eng)))))"
      unfolding grid_cells_def by (rule product_count)
    also have "\<dots> = (if 0 \<le> px \<and> px < r * (ndx (Tt eng) - 1) + e then 1 else 0)
                     * (if 0 \<le> py \<and> py < h * (ndy (Tt eng) - 1) + u then 1 else 0)"
      unfolding grid_cols_count [OF p nonneg(1,2)] grid_cols_count [OF q nonneg(3,4)] nx ny ..
    finally show "cover_count (map2 (tile_rect_exact r e h u) ?fs ?cs) px py =
        (if 0 \<le> px \<and> px < r * (ndx (Tt eng) - 1) + e \<and> 0 \<le> py \<and> py < h * (ndy (Tt eng) - 1) + u
         then 1 else 0)"
      by simp
  qed
qed

lemma strips_partition_only_if:
  assumes all: "partitions
     (tiles
      @ (if l < w then [\<lparr>xsrc = l, ysrc = 0, width = w - l, height = v, xdest = l, ydest = 0\<rparr>]
         else [])
      @ (if v < h then [\<lparr>xsrc = 0, ysrc = v, width = w, height = h - v, xdest = 0, ydest = v\<rparr>]
         else [])) w h"
    and l: "0 \<le> l" "l \<le> w" and v: "0 \<le> v" "v \<le> h"
  shows "partitions tiles l v"
proof -
  have t: "cover_count tiles px py
      + cover_count (if l < w then [\<lparr>xsrc = l, ysrc = 0, width = w - l, height = v, xdest = l, ydest = 0\<rparr>]
         else []) px py
      + cover_count (if v < h then [\<lparr>xsrc = 0, ysrc = v, width = w, height = h - v, xdest = 0, ydest = v\<rparr>]
         else []) px py
      = (if 0 \<le> px \<and> px < w \<and> 0 \<le> py \<and> py < h then 1 else 0)"
    for px py
    using all by (simp add: partitions_def cover_count_append add.assoc)
  show ?thesis
    unfolding partitions_def
  proof (intro allI)
    fix px py
    from t [of px py] l v
    show "cover_count tiles px py = (if 0 \<le> px \<and> px < l \<and> 0 \<le> py \<and> py < v then 1 else 0)"
      by (auto simp: cover_count_single cover_count_Nil in_dest_def split: if_splits)
  qed
qed

lemma grid_layout_example:
  "grid_layout (Pt 
       \<lparr>Tt = \<lparr>ndx = 2, ndy = 2,
                 piece = [\<lparr>piece_x = 1, piece_y = 1, piece_w = 2, piece_h = 2\<rparr>,
                          \<lparr>piece_x = 1, piece_y = 0, piece_w = 2, piece_h = 1\<rparr>,
                          \<lparr>piece_x = 0, piece_y = 1, piece_w = 1, piece_h = 2\<rparr>,
                          \<lparr>piece_x = 0, piece_y = 0, piece_w = 1, piece_h = 1\<rparr>]\<rparr>,
          Pt = \<lparr>ndx = 2, ndy = 2,
                 piece = [\<lparr>piece_x = 0, piece_y = 0, piece_w = 2, piece_h = 2\<rparr>,
                          \<lparr>piece_x = 0, piece_y = 2, piece_w = 2, piece_h = 1\<rparr>,
                          \<lparr>piece_x = 2, piece_y = 0, piece_w = 1, piece_h = 2\<rparr>,
                          \<lparr>piece_x = 2, piece_y = 2, piece_w = 1, piece_h = 1\<rparr>]\<rparr>\<rparr>) 1 1"
  by (simp add: grid_layout_def grid_cells_def grid_cols_def tile_quad_def)

text \<open>
  Claim C1, as stated, fails: the key \<^verbatim>\<open>"1-1-BA"\<close> parses (with itself, the same
  \<open>ndx\<close> and \<open>ndy\<close>), and for a 100 by 100 image its tile goes to \<open>x = 8\<close>: no
  destination block holds the pixel \<open>(0, 0)\<close>, and two hold the pixel \<open>(40, 0)\<close>.
\<close>

theorem type1_coverage_counterexample:
  "Type1_init ''1-1-BA'' ''1-1-BA'' =
     Inr \<lparr>Tt = \<lparr>ndx = 1, ndy = 1,
                 piece = [\<lparr>piece_x = 2, piece_y = 0, piece_w = 1, piece_h = 1\<rparr>]\<rparr>,
          Pt = \<lparr>ndx = 1, ndy = 1,
                 piece = [\<lparr>piece_x = 2, piece_y = 0, piece_w = 1, piece_h = 1\<rparr>]\<rparr>\<rparr>
   \<and> Type1_calculate_coords
       \<lparr>Tt = \<lparr>ndx = 1, ndy = 1,
                 piece = [\<lparr>piece_x = 2, piece_y = 0, piece_w = 1, piece_h = 1\<rparr>]\<rparr>,
          Pt = \<lparr>ndx = 1, ndy = 1,
                 piece = [\<lparr>piece_x = 2, piece_y = 0, piece_w = 1, piece_h = 1\<rparr>]\<rparr>\<rparr> 100 100 =
     Inr [\<lparr>xsrc = 8, ysrc = 0, width = 40, height = 40, xdest = 8, ydest = 0\<rparr>,
          \<lparr>xsrc = 40, ysrc = 0, width = 60, height = 40, xdest = 40, ydest = 0\<rparr>,
          \<lparr>xsrc = 0, ysrc = 40, width = 100, height = 60, xdest = 0, ydest = 40\<rparr>]
   \<and> cover_count
       [\<lparr>xsrc = 8, ysrc = 0, width = 40, height = 40, xdest = 8, ydest = 0\<rparr>,
        \<lparr>xsrc = 40, ysrc = 0, width = 60, height = 40, xdest = 40, ydest = 0\<rparr>,
        \<lparr>xsrc = 0, ysrc = 40, width = 100, height = 60, xdest = 0, ydest = 40\<rparr>] 0 0 = 0
   \<and> cover_count
       [\<lparr>xsrc = 8, ysrc = 0, width = 40, height = 40, xdest = 8, ydest = 0\<rparr>,
        \<lparr>xsrc = 40, ysrc = 0, width = 60, height = 40, xdest = 40, ydest = 0\<rparr>,
        \<lparr>xsrc = 0, ysrc = 40, width = 100, height = 60, xdest = 0, ydest = 40\<rparr>] 40 0 = 2"
  by code_simp

text \<open>
  Claim C1, amended: for a constructed engine whose unscramble map is a grid layout, with
  \<open>ndx\<close> and \<open>ndy\<close> at most 8, and an image at least 8 and below \<open>2^51\<close> wide and high,
  \<^verbatim>\<open>calculate_coords\<close> returns a list (the tile rectangles, then the right and bottom
  remainders where they exist) whose destination blocks partition
  \<open>[0, width) \<times> [0, height)\<close>: every pixel of the image is in exactly one block, and no
  pixel outside the image is in any.
\<close>

theorem type1_coverage:
  assumes "Type1_init key_h key_s = Inr eng"
    and "grid_layout (Pt eng) p q"
    and "ndx (Tt eng) \<le> 8" and "ndy (Tt eng) \<le> 8"
    and "8 \<le> image_width" and "image_width < 2 ^ 51"
    and "8 \<le> image_height" and "image_height < 2 ^ 51"
  shows "\<exists>coords. Type1_calculate_coords eng image_width image_height = Inr coords
           \<and> partitions coords image_width image_height"
proof -
  from Type1_init_Inr [OF assms(1)]
  have eq: "ndx (Tt eng) = ndx (Pt eng)" "ndy (Tt eng) = ndy (Pt eng)" by simp_all
  from assms(2) have "p < nat (ndx (Pt eng))" "q < nat (ndy (Pt eng))"
    by (simp_all add: grid_layout_def)
  with eq have n1: "1 \<le> ndx (Tt eng)" "1 \<le> ndy (Tt eng)"
    by linarith+
  have b: "\<bar>image_width\<bar> < 2 ^ 51" "\<bar>image_height\<bar> < 2 ^ 51"
    using assms(5-8) by simp_all
  from base_exact_bounds [OF assms(5)] base_exact_bounds [OF assms(7)]
  have nn: "0 \<le> base_exact image_width" "0 \<le> rem_exact image_width"
    "0 \<le> base_exact image_height" "0 \<le> rem_exact image_height" by simp_all
  from tiled_extent_bounds [OF assms(5) n1(1) assms(3)]
  have l: "0 \<le> base_exact image_width * (ndx (Tt eng) - 1) + rem_exact image_width"
    "base_exact image_width * (ndx (Tt eng) - 1) + rem_exact image_width \<le> image_width"
    by simp_all
  from tiled_extent_bounds [OF assms(7) n1(2) assms(4)]
  have v: "0 \<le> base_exact image_height * (ndy (Tt eng) - 1) + rem_exact image_height"
    "base_exact image_height * (ndy (Tt eng) - 1) + rem_exact image_height \<le> image_height"
    by simp_all
  from strips_complete_partition [OF grid_tiles_partition [OF assms(1,2) nn] l v]
    Type1_calculate_coords_shape [OF assms(1) b]
  show ?thesis by (simp only: simp_thms exI)
qed

theorem type1_coverage_witness:
  "Type1_init ''2-2-AAABBABB'' ''2-2-aaaAAaAA'' = Inr
       \<lparr>Tt = \<lparr>ndx = 2, ndy = 2,
                 piece = [\<lparr>piece_x = 1, piece_y = 1, piece_w = 2, piece_h = 2\<rparr>,
                          \<lparr>piece_x = 1, piece_y = 0, piece_w = 2, piece_h = 1\<rparr>,
                          \<lparr>piece_x = 0, piece_y = 1, piece_w = 1, piece_h = 2\<rparr>,
                          \<lparr>piece_x = 0, piece_y = 0, piece_w = 1, piece_h = 1\<rparr>]\<rparr>,
          Pt = \<lparr>ndx = 2, ndy = 2,
                 piece = [\<lparr>piece_x = 0, piece_y = 0, piece_w = 2, piece_h = 2\<rparr>,
                          \<lparr>piece_x = 0, piece_y = 2, piece_w = 2, piece_h = 1\<rparr>,
                          \<lparr>piece_x = 2, piece_y = 0, piece_w = 1, piece_h = 2\<rparr>,
                          \<lparr>piece_x = 2, piece_y = 2, piece_w = 1, piece_h = 1\<rparr>]\<rparr>\<rparr>
   \<and> grid_layout (Pt
       \<lparr>Tt = \<lparr>ndx = 2, ndy = 2,
                 piece = [\<lparr>piece_x = 1, piece_y = 1, piece_w = 2, piece_h = 2\<rparr>,
                          \<lparr>piece_x = 1, piece_y = 0, piece_w = 2, piece_h = 1\<rparr>,
                          \<lparr>piece_x = 0, piece_y = 1, piece_w = 1, piece_h = 2\<rparr>,
                          \<lparr>piece_x = 0, piece_y = 0, piece_w = 1, piece_h = 1\<rparr>]\<rparr>,
          Pt = \<lparr>ndx = 2, ndy = 2,
                 piece = [\<lparr>piece_x = 0, piece_y = 0, piece_w = 2, piece_h = 2\<rparr>,
                          \<lparr>piece_x = 0, piece_y = 2, piece_w = 2, piece_h = 1\<rparr>,
                          \<lparr>piece_x = 2, piece_y = 0, piece_w = 1, piece_h = 2\<rparr>,
                          \<lparr>piece_x = 2, piece_y = 2, piece_w = 1, piece_h = 1\<rparr>]\<rparr>\<rparr>) 1 1
   \<and> (\<exists>coords. Type1_calculate_coords
       \<lparr>Tt = \<lparr>ndx = 2, ndy = 2,
                 piece = [\<lparr>piece_x = 1, piece_y = 1, piece_w = 2, piece_h = 2\<rparr>,
                          \<lparr>piece_x = 1, piece_y = 0, piece_w = 2, piece_h = 1\<rparr>,
                          \<lparr>piece_x = 0, piece_y = 1, piece_w = 1, piece_h = 2\<rparr>,
                          \<lparr>piece_x = 0, piece_y = 0, piece_w = 1, piece_h = 1\<rparr>]\<rparr>,
          Pt = \<lparr>ndx = 2, ndy = 2,
                 piece = [\<lparr>piece_x = 0, piece_y = 0, piece_w = 2, piece_h = 2\<rparr>,
                          \<lparr>piece_x = 0, piece_y = 2, piece_w = 2, piece_h = 1\<rparr>,
                          \<lparr>piece_x = 2, piece_y = 0, piece_w = 1, piece_h = 2\<rparr>,
                          \<lparr>piece_x = 2, piece_y = 2, piece_w = 1, piece_h = 1\<rparr>]\<rparr>\<rparr> 100 100 = Inr coords \<and> partitions coords 100 100)"
proof -
  have h: "Type1_init ''2-2-AAABBABB'' ''2-2-aaaAAaAA'' = Inr
       \<lparr>Tt = \<lparr>ndx = 2, ndy = 2,
                 piece = [\<lparr>piece_x = 1, piece_y = 1, piece_w = 2, piece_h = 2\<rparr>,
                          \<lparr>piece_x = 1, piece_y = 0, piece_w = 2, piece_h = 1\<rparr>,
                          \<lparr>piece_x = 0, piece_y = 1, piece_w = 1, piece_h = 2\<rparr>,
                          \<lparr>piece_x = 0, piece_y = 0, piece_w = 1, piece_h = 1\<rparr>]\<rparr>,
          Pt = \<lparr>ndx = 2, ndy = 2,
                 piece = [\<lparr>piece_x = 0, piece_y = 0, piece_w = 2, piece_h = 2\<rparr>,
                          \<lparr>piece_x = 0, piece_y = 2, piece_w = 2, piece_h = 1\<rparr>,
                          \<lparr>piece_x = 2, piece_y = 0, piece_w = 1, piece_h = 2\<rparr>,
                          \<lparr>piece_x = 2, piece_y = 2, piece_w = 1, piece_h = 1\<rparr>]\<rparr>\<rparr>"
    by code_simp
  have g: "grid_layout (Pt
       \<lparr>Tt = \<lparr>ndx = 2, ndy = 2,
                 piece = [\<lparr>piece_x = 1, piece_y = 1, piece_w = 2, piece_h = 2\<rparr>,
                          \<lparr>piece_x = 1, piece_y = 0, piece_w = 2, piece_h = 1\<rparr>,
                          \<lparr>piece_x = 0, piece_y = 1, piece_w = 1, piece_h = 2\<rparr>,
                          \<lparr>piece_x = 0, piece_y = 0, piece_w = 1, piece_h = 1\<rparr>]\<rparr>,
          Pt = \<lparr>ndx = 2, ndy = 2,
                 piece = [\<lparr>piece_x = 0, piece_y = 0, piece_w = 2, piece_h = 2\<rparr>,
                          \<lparr>piece_x = 0, piece_y = 2, piece_w = 2, piece_h = 1\<rparr>,
                          \<lparr>piece_x = 2, piece_y = 0, piece_w = 1, piece_h = 2\<rparr>,
                          \<lparr>piece_x = 2, piece_y = 2, piece_w = 1, piece_h = 1\<rparr>]\<rparr>\<rparr>) 1 1"
    by (rule grid_layout_example)
  from type1_coverage [OF h g, of 100 100]
  have "\<exists>coords. Type1_calculate_coords
       \<lparr>Tt = \<lparr>ndx = 2, ndy = 2,
                 piece = [\<lparr>piece_x = 1, piece_y = 1, piece_w = 2, piece_h = 2\<rparr>,
                          \<lparr>piece_x = 1, piece_y = 0, piece_w = 2, piece_h = 1\<rparr>,
                          \<lparr>piece_x = 0, piece_y = 1, piece_w = 1, piece_h = 2\<rparr>,
                          \<lparr>piece_x = 0, piece_y = 0, piece_w = 1, piece_h = 1\<rparr>]\<rparr>,
          Pt = \<lparr>ndx = 2, ndy = 2,
                 piece = [\<lparr>piece_x = 0, piece_y = 0, piece_w = 2, piece_h = 2\<rparr>,
                          \<lparr>piece_x = 0, piece_y = 2, piece_w = 2, piece_h = 1\<rparr>,
                          \<lparr>piece_x = 2, piece_y = 0, piece_w = 1, piece_h = 2\<rparr>,
                          \<lparr>piece_x = 2, piece_y = 2, piece_w = 1, piece_h = 1\<rparr>]\<rparr>\<rparr> 100 100 = Inr coords \<and> partitions coords 100 100"
    by simp
  with h g show ?thesis by (simp only: simp_thms)
qed

section \<open>Type 2: the grammar and characters outside its alphabet\<close>

text \<open>
  \<open>match_key\<close> is the regular expression: a key matches, with the groups
  \<open>g1\<close>, ..., \<open>g5\<close>, exactly when it is \<^verbatim>\<open>=\<close>, digits \<open>g1\<close>, \<^verbatim>\<open>-\<close>, digits \<open>g2\<close>, a sign
  \<open>g3\<close>, digits \<open>g4\<close>, \<^verbatim>\<open>-\<close>, and a non-empty \<open>g5\<close> of the data class, optionally
  followed by one line feed.
\<close>

lemma digit_data_class: "is_digit c \<Longrightarrow> data_class c"
  by (simp add: data_class_def)

lemma match_key_shape:
  assumes "match_key key = Some (g1, g2, g3, g4, g5)"
  shows "(key = ''='' @ g1 @ ''-'' @ g2 @ [g3] @ g4 @ ''-'' @ g5
          \<or> key = ''='' @ g1 @ ''-'' @ g2 @ [g3] @ g4 @ ''-'' @ g5 @ [CHR 0x0A])
         \<and> g1 \<noteq> [] \<and> list_all is_digit g1 \<and> g2 \<noteq> [] \<and> list_all is_digit g2
         \<and> (g3 = CHR ''-'' \<or> g3 = CHR ''+'') \<and> g4 \<noteq> [] \<and> list_all is_digit g4
         \<and> g5 \<noteq> [] \<and> list_all data_class g5"
proof -
  define k0 where "k0 = tl key"
  define k1 where "k1 = dropWhile is_digit k0"
  define k2 where "k2 = dropWhile is_digit (tl k1)"
  define k4 where "k4 = dropWhile is_digit (tl k2)"
  define rest where "rest = tl k4"
  from assms have f:
    "key \<noteq> []" "hd key = CHR ''=''" "g1 = takeWhile is_digit k0" "g1 \<noteq> []"
    "k1 \<noteq> []" "hd k1 = CHR ''-''" "g2 = takeWhile is_digit (tl k1)" "g2 \<noteq> []"
    "k2 \<noteq> []" "g3 = hd k2" "g3 = CHR ''-'' \<or> g3 = CHR ''+''"
    "g4 = takeWhile is_digit (tl k2)" "g4 \<noteq> []"
    "k4 \<noteq> []" "hd k4 = CHR ''-''"
    "g5 = (if rest \<noteq> [] \<and> last rest = CHR 0x0A then butlast rest else rest)"
    "g5 \<noteq> []" "list_all data_class g5"
    unfolding match_key_def Let_def k0_def k1_def k2_def k4_def rest_def
    by (simp_all split: if_splits)
  have 0: "key = CHR ''='' # k0" using f(1,2) unfolding k0_def by (metis list.collapse)
  have 1: "k0 = g1 @ k1" by (simp add: f(3) k1_def)
  have 2: "k1 = CHR ''-'' # tl k1" using f(5,6) by (metis list.collapse)
  have 3: "tl k1 = g2 @ k2" by (simp add: f(7) k2_def)
  have 4: "k2 = g3 # tl k2" using f(9,10) by (metis list.collapse)
  have 5: "tl k2 = g4 @ k4" by (simp add: f(12) k4_def)
  have 6: "k4 = CHR ''-'' # rest" using f(14,15) by (metis list.collapse rest_def)
  have 7: "rest = g5 \<or> rest = g5 @ [CHR 0x0A]"
    using f(16) by (metis append_butlast_last_id)
  have key: "key = ''='' @ g1 @ ''-'' @ g2 @ [g3] @ g4 @ ''-'' @ rest"
    by (metis 0 1 2 3 4 5 6 append_Cons append_Nil)
  have d: "list_all is_digit g1" "list_all is_digit g2" "list_all is_digit g4"
    unfolding f(3,7,12) list_all_iff by (auto dest: set_takeWhileD)
  from key 7 d f(4,8,11,13,17,18) show ?thesis by auto
qed

lemma takeWhile_dropWhile_stop:
  assumes "list_all P xs" and "\<not> P y"
  shows "takeWhile P (xs @ y # ys) = xs \<and> dropWhile P (xs @ y # ys) = y # ys"
  using assms by (induction xs) simp_all

lemma match_key_complete:
  assumes "g1 \<noteq> []" "list_all is_digit g1" "g2 \<noteq> []" "list_all is_digit g2"
    and "g3 = CHR ''-'' \<or> g3 = CHR ''+''" and "g4 \<noteq> []" "list_all is_digit g4"
    and "g5 \<noteq> []" "list_all data_class g5"
    and "nl = [] \<or> nl = [CHR 0x0A]"
  shows "match_key (''='' @ g1 @ ''-'' @ g2 @ [g3] @ g4 @ ''-'' @ g5 @ nl) = Some (g1, g2, g3, g4, g5)"
proof -
  have nd: "\<not> is_digit CHR ''-''" "\<not> is_digit g3"
    using assms(5) by (auto simp: is_digit_def py_ord_def)
  have nc: "\<not> data_class CHR 0x0A"
    by (simp add: data_class_def is_digit_def py_ord_def)
  let ?k4 = "CHR ''-'' # g5 @ nl"
  let ?k2 = "g3 # g4 @ ?k4"
  let ?k1 = "CHR ''-'' # g2 @ ?k2"
  have a: "takeWhile is_digit (g1 @ ?k1) = g1" "dropWhile is_digit (g1 @ ?k1) = ?k1"
    using takeWhile_dropWhile_stop [OF assms(2) nd(1)] by simp_all
  have b: "takeWhile is_digit (g2 @ ?k2) = g2" "dropWhile is_digit (g2 @ ?k2) = ?k2"
    using takeWhile_dropWhile_stop [OF assms(4) nd(2)] by simp_all
  have c: "takeWhile is_digit (g4 @ ?k4) = g4" "dropWhile is_digit (g4 @ ?k4) = ?k4"
    using takeWhile_dropWhile_stop [OF assms(7) nd(1)] by simp_all
  have "last g5 \<in> set g5" using assms(8) by simp
  with assms(9) nc have l: "last g5 \<noteq> CHR 0x0A" by (auto simp: list_all_iff)
  from assms(10) show ?thesis
  proof
    assume "nl = []"
    with a b c l assms(1,3,5,6,8,9) show ?thesis
      unfolding match_key_def Let_def by simp
  next
    assume "nl = [CHR 0x0A]"
    with a b c assms(1,3,5,6,8,9) show ?thesis
      unfolding match_key_def Let_def by (simp add: butlast_append)
  qed
qed

lemma match_key_alphabet:
  assumes "match_key key = Some g" and "c \<in> set key" and "c \<noteq> CHR 0x0A"
  shows "key_alphabet c"
proof -
  obtain g1 g2 g3 g4 g5 where g: "g = (g1, g2, g3, g4, g5)" by (metis prod_cases5)
  from match_key_shape [OF assms(1) [unfolded g]]
  have key: "set key \<subseteq> {CHR ''='', CHR ''-'', g3, CHR 0x0A} \<union> set g1 \<union> set g2 \<union> set g4 \<union> set g5"
    and d: "\<forall>x \<in> set g1 \<union> set g2 \<union> set g4. is_digit x" and dc: "\<forall>x \<in> set g5. data_class x"
    and g3: "g3 = CHR ''-'' \<or> g3 = CHR ''+''"
    by (auto simp: list_all_iff)
  from key assms(2,3) consider "c = CHR ''=''" | "c = CHR ''-''" | "c = g3"
    | "c \<in> set g1 \<union> set g2 \<union> set g4" | "c \<in> set g5" by auto
  then show ?thesis
  proof cases
    case 4
    with d show ?thesis by (auto simp: key_alphabet_def digit_data_class)
  next
    case 5
    with dc show ?thesis by (simp add: key_alphabet_def)
  qed (use g3 in \<open>auto simp: key_alphabet_def data_class_def\<close>)
qed

text \<open>
  The fallback of claim C6 for every foreign character but the line feed: a key pair in
  which a key holds a character outside the alphabet, other than a line feed, does not
  match; the engine keeps its initial state, with no permutation, and
  \<^verbatim>\<open>calculate_coords\<close> returns the single identity rectangle.
\<close>

lemma type2_foreign_character_fallback:
  assumes "c \<in> set key_s \<union> set key_h" and "\<not> key_alphabet c" and "c \<noteq> CHR 0x0A"
  shows "Type2_init key_h key_s =
           Inr \<lparr>kt = None, T = 0, j = 0, Dt = 0, Rt = [], Ft = [], Lt = [], Nt = []\<rparr>
         \<and> Type2_calculate_coords
             \<lparr>kt = None, T = 0, j = 0, Dt = 0, Rt = [], Ft = [], Lt = [], Nt = []\<rparr>
             image_width image_height
           = Inr [\<lparr>xsrc = 0, ysrc = 0, width = image_width, height = image_height,
                    xdest = 0, ydest = 0\<rparr>]"
proof -
  from assms have "match_key key_s = None \<or> match_key key_h = None"
    using match_key_alphabet by (metis Un_iff not_Some_eq)
  then have "Type2_init key_h key_s =
           Inr \<lparr>kt = None, T = 0, j = 0, Dt = 0, Rt = [], Ft = [], Lt = [], Nt = []\<rparr>"
    by (auto simp: Type2_init_def Type2_parse_keys_def split: option.splits)
  then show ?thesis by (simp add: Type2_calculate_coords_def)
qed

lemma type2_foreign_character_example:
  "Type2_init ''=1-1-0-AAA'' ''=1-1+0-AA!'' =
           Inr \<lparr>kt = None, T = 0, j = 0, Dt = 0, Rt = [], Ft = [], Lt = [], Nt = []\<rparr>"
  using type2_foreign_character_fallback [of "CHR ''!''" "''=1-1+0-AA!''" "''=1-1-0-AAA''"]
  by (simp add: key_alphabet_def data_class_def is_digit_def py_ord_def)

text \<open>
  The bounds of the amended claim C1 are needed. For a 7 by 7 image the key
  \<^verbatim>\<open>"1-1-AA"\<close> gives one 56 by 56 tile, which holds the pixel \<open>(7, 7)\<close> outside the
  image. The key \<^verbatim>\<open>"9-1-AABACADAEAFAGAHAIA"\<close> is a grid layout with \<open>ndx = 9\<close>, and for a
  100 by 100 image a tile holds the pixel \<open>(100, 0)\<close> outside the image.
\<close>

lemma type1_coverage_bounds_needed:
  "Type1_init ''1-1-AA'' ''1-1-AA'' =
     Inr \<lparr>Tt = \<lparr>ndx = 1, ndy = 1,
                 piece = [\<lparr>piece_x = 0, piece_y = 0, piece_w = 1, piece_h = 1\<rparr>]\<rparr>,
          Pt = \<lparr>ndx = 1, ndy = 1,
                 piece = [\<lparr>piece_x = 0, piece_y = 0, piece_w = 1, piece_h = 1\<rparr>]\<rparr>\<rparr>
   \<and> Type1_calculate_coords
       \<lparr>Tt = \<lparr>ndx = 1, ndy = 1,
                 piece = [\<lparr>piece_x = 0, piece_y = 0, piece_w = 1, piece_h = 1\<rparr>]\<rparr>,
          Pt = \<lparr>ndx = 1, ndy = 1,
                 piece = [\<lparr>piece_x = 0, piece_y = 0, piece_w = 1, piece_h = 1\<rparr>]\<rparr>\<rparr> 7 7
     = Inr [\<lparr>xsrc = 0, ysrc = 0, width = 56, height = 56, xdest = 0, ydest = 0\<rparr>]
   \<and> cover_count
        [\<lparr>xsrc = 0, ysrc = 0, width = 56, height = 56, xdest = 0, ydest = 0\<rparr>] 7 7 = 1
   \<and> (case Type1_init ''9-1-AABACADAEAFAGAHAIA'' ''9-1-AABACADAEAFAGAHAIA'' of
         Inl err \<Rightarrow> False
       | Inr eng \<Rightarrow>
           grid_layout (Pt eng) 8 0
           \<and> (case Type1_calculate_coords eng 100 100 of
                 Inl err \<Rightarrow> False
               | Inr coords \<Rightarrow> cover_count coords 100 0 = 1))"
  by code_simp

end
